theory Spec2Isabelle
  imports Main "HOL-Library.Word"
begin

unbundle bit_operations_syntax

section \<open>JavaScript values used by the bridge\<close>

text \<open>
  A JavaScript string is a sequence of UTF-16 code units, and \<open>s.length\<close> counts code
  units. A \<open>Buffer\<close> is a sequence of bytes. A value that may be \<open>null\<close> or
  \<open>undefined\<close> is an \<open>option\<close>.
\<close>

type_synonym jsstring = "16 word list"
type_synonym buffer = "8 word list"

text \<open>An ASCII literal of the source as a JavaScript string.\<close>

definition js :: "string \<Rightarrow> jsstring" where
  "js s = map of_char s"

text \<open>Truthiness of a possibly missing string: \<open>null\<close>, \<open>undefined\<close> and \<open>''\<close> are falsy.\<close>

fun truthy :: "jsstring option \<Rightarrow> bool" where
  "truthy None = False"
| "truthy (Some s) = (s \<noteq> [])"

text \<open>\<open>a || b\<close> on possibly missing strings.\<close>

definition js_or :: "jsstring option \<Rightarrow> jsstring option \<Rightarrow> jsstring option" where
  "js_or a b = (if truthy a then a else b)"

text \<open>\<open>s.startsWith(p)\<close>, \<open>s.endsWith(p)\<close>, \<open>s.includes(p)\<close>.\<close>

definition startsWith :: "'a list \<Rightarrow> 'a list \<Rightarrow> bool" where
  "startsWith s p = (take (length p) s = p)"

definition endsWith :: "'a list \<Rightarrow> 'a list \<Rightarrow> bool" where
  "endsWith s p = (length p \<le> length s \<and> drop (length s - length p) s = p)"

fun includes_str :: "'a list \<Rightarrow> 'a list \<Rightarrow> bool" where
  "includes_str [] p = (p = [])"
| "includes_str (c # cs) p = (startsWith (c # cs) p \<or> includes_str cs p)"

text \<open>\<open>s.split(sep)\<close> for a one-character separator: the segments between separators.\<close>

fun split_str :: "'a \<Rightarrow> 'a list \<Rightarrow> 'a list list" where
  "split_str sep [] = [[]]"
| "split_str sep (c # cs) =
     (if c = sep then [] # split_str sep cs
      else (case split_str sep cs of
              seg # segs \<Rightarrow> (c # seg) # segs
            | [] \<Rightarrow> [[c]]))"

text \<open>\<open>xs[i]\<close>: \<open>undefined\<close> out of range.\<close>

definition at_index :: "'a list \<Rightarrow> nat \<Rightarrow> 'a option" where
  "at_index xs i = (if i < length xs then Some (xs ! i) else None)"

text \<open>
  \<open>Buffer.from(s)\<close>: the UTF-8 encoding of the string. A surrogate pair is one code point
  of four bytes; a lone surrogate is encoded as U+FFFD (EF BF BD).
\<close>

definition is_high :: "16 word \<Rightarrow> bool" where
  "is_high c = (0xD800 \<le> c \<and> c \<le> 0xDBFF)"

definition is_low :: "16 word \<Rightarrow> bool" where
  "is_low c = (0xDC00 \<le> c \<and> c \<le> 0xDFFF)"

definition utf8_pair :: "16 word \<Rightarrow> 16 word \<Rightarrow> buffer" where
  "utf8_pair h l =
     (let cp = (0x10000 :: 32 word) + push_bit 10 (ucast (h AND 0x3FF)) + ucast (l AND 0x3FF)
      in [0xF0 OR ucast (drop_bit 18 cp),
          0x80 OR ucast (drop_bit 12 cp AND 0x3F),
          0x80 OR ucast (drop_bit 6 cp AND 0x3F),
          0x80 OR ucast (cp AND 0x3F)])"

fun Buffer_from :: "jsstring \<Rightarrow> buffer" where
  "Buffer_from [] = []"
| "Buffer_from (c # cs) =
     (if c < 0x80 then ucast c # Buffer_from cs
      else if c < 0x800 then
        [0xC0 OR ucast (drop_bit 6 c), 0x80 OR ucast (c AND 0x3F)] @ Buffer_from cs
      else if is_high c then
        (case cs of
           [] \<Rightarrow> [0xEF, 0xBF, 0xBD]
         | d # ds \<Rightarrow>
             if is_low d then utf8_pair c d @ Buffer_from ds
             else [0xEF, 0xBF, 0xBD] @ Buffer_from cs)
      else if is_low c then [0xEF, 0xBF, 0xBD] @ Buffer_from cs
      else [0xE0 OR ucast (drop_bit 12 c),
            0x80 OR ucast (drop_bit 6 c AND 0x3F),
            0x80 OR ucast (c AND 0x3F)] @ Buffer_from cs)"

text \<open>Errors thrown by the runtime, the libraries and the storage layer.\<close>

datatype js_error =
    RangeError        \<comment> \<open>\<open>crypto.timingSafeEqual\<close> on buffers of different byte length\<close>
  | TypeError         \<comment> \<open>a call on \<open>undefined\<close>, \<open>path.resolve(undefined)\<close>\<close>
  | SqliteConstraint  \<comment> \<open>a NOT NULL or UNIQUE constraint of the schema\<close>
  | ExternalError     \<comment> \<open>a rejected promise or a throw of a library call\<close>

text \<open>
  \<open>crypto.timingSafeEqual(a, b)\<close>: throws when the byte lengths differ, otherwise tells
  whether the buffers are equal.
\<close>

definition timingSafeEqual :: "buffer \<Rightarrow> buffer \<Rightarrow> js_error + bool" where
  "timingSafeEqual a b = (if length a \<noteq> length b then Inl RangeError else Inr (a = b))"

section \<open>Persistence layer (src/database/index.js)\<close>

text \<open>
  The tables of \<open>initializeDatabase\<close>, each a list of rows in rowid order. A
  \<open>created_at\<close> value is a text timestamp whose order is the order of time; it is
  modelled by a number.
\<close>

record message_row =
  m_id :: nat
  direction :: jsstring
  col_phone :: jsstring
  sender_name :: "jsstring option"
  col_message :: jsstring
  reply_status :: jsstring
  media_type :: "jsstring option"
  media_url :: "jsstring option"
  created_at :: jsstring

record api_key_row =
  k_id :: nat
  key :: jsstring
  k_created_at :: nat

record webhook_row =
  w_id :: nat
  url :: jsstring
  event :: jsstring
  active :: nat

record database =
  messages :: "message_row list"
  api_keys :: "api_key_row list"
  webhooks :: "webhook_row list"

text \<open>
  \<open>SELECT key FROM api_keys ORDER BY created_at DESC LIMIT 1\<close>: a row with the greatest
  \<open>created_at\<close>, \<open>undefined\<close> on an empty table. Among rows of equal timestamp SQL fixes
  no order; the model takes the one of least rowid.
\<close>

fun newest :: "api_key_row list \<Rightarrow> api_key_row option" where
  "newest [] = None"
| "newest (r # rs) =
     (case newest rs of
        None \<Rightarrow> Some r
      | Some r' \<Rightarrow> if k_created_at r < k_created_at r' then Some r' else Some r)"

definition getApiKey :: "database \<Rightarrow> api_key_row option" where
  "getApiKey db = newest (api_keys db)"

text \<open>The next value of an AUTOINCREMENT column.\<close>

definition next_id :: "nat list \<Rightarrow> nat" where
  "next_id ids = Suc (fold max ids 0)"

text \<open>
  \<open>INSERT INTO api_keys (key) VALUES (?)\<close>: \<open>key\<close> is UNIQUE, \<open>created_at\<close> defaults
  to the current time.
\<close>

definition insertApiKey :: "database \<Rightarrow> jsstring \<Rightarrow> nat \<Rightarrow> js_error + database" where
  "insertApiKey db apiKey now =
     (if apiKey \<in> set (map key (api_keys db)) then Inl SqliteConstraint
      else Inr (db\<lparr>api_keys := api_keys db @
             [\<lparr>k_id = next_id (map k_id (api_keys db)), key = apiKey, k_created_at = now\<rparr>]\<rparr>))"

text \<open>\<open>buf.toString('base64')\<close>.\<close>

definition b64char :: "8 word \<Rightarrow> 16 word" where
  "b64char i =
     of_char (''ABCDEFGHIJKLMNOPQRSTUVWXYZabcdefghijklmnopqrstuvwxyz0123456789+/'' ! unat i)"

fun base64 :: "buffer \<Rightarrow> jsstring" where
  "base64 [] = []"
| "base64 [a] =
     [b64char (drop_bit 2 a), b64char (push_bit 4 (a AND 3)), 0x3D, 0x3D]"
| "base64 [a, b] =
     [b64char (drop_bit 2 a), b64char (push_bit 4 (a AND 3) OR drop_bit 4 b),
      b64char (push_bit 2 (b AND 15)), 0x3D]"
| "base64 (a # b # c # rest) =
     [b64char (drop_bit 2 a), b64char (push_bit 4 (a AND 3) OR drop_bit 4 b),
      b64char (push_bit 2 (b AND 15) OR drop_bit 6 c), b64char (c AND 63)] @ base64 rest"

text \<open>
  \<open>ensureApiKey(db)\<close>: the stored key when a row exists; otherwise a new key, the base64
  text of the bytes drawn from \<open>crypto.randomBytes(32)\<close>, is inserted and returned. The
  drawn bytes and the time of the insert are inputs.
\<close>

definition ensureApiKey :: "database \<Rightarrow> buffer \<Rightarrow> nat \<Rightarrow> js_error + (jsstring \<times> database)" where
  "ensureApiKey db randomBytes now =
     (case getApiKey db of
        Some existingKey \<Rightarrow> Inr (key existingKey, db)
      | None \<Rightarrow>
          (let apiKey = base64 randomBytes in
           case insertApiKey db apiKey now of
             Inl e \<Rightarrow> Inl e
           | Inr db' \<Rightarrow> Inr (apiKey, db')))"

text \<open>A sequence of provisioning requests, each with its own random bytes and time.\<close>

fun ensureApiKey_all :: "database \<Rightarrow> (buffer \<times> nat) list \<Rightarrow> js_error + database" where
  "ensureApiKey_all db [] = Inr db"
| "ensureApiKey_all db ((rnd, now) # calls) =
     (case ensureApiKey db rnd now of
        Inl e \<Rightarrow> Inl e
      | Inr (k, db') \<Rightarrow> ensureApiKey_all db' calls)"

text \<open>The database right after \<open>initializeDatabase\<close> on a new file.\<close>

definition db_empty :: database where
  "db_empty = \<lparr>messages = [], api_keys = [], webhooks = []\<rparr>"

section \<open>AuthGateway (src/api/routes.js)\<close>

text \<open>
  \<open>timingSafeCompare(a, b)\<close>: false when either argument is falsy or the lengths (in code
  units) differ; otherwise the comparison of the two UTF-8 buffers.
\<close>

definition timingSafeCompare :: "jsstring option \<Rightarrow> jsstring option \<Rightarrow> js_error + bool" where
  "timingSafeCompare a b =
     (if \<not> truthy a \<or> \<not> truthy b \<or> length (the a) \<noteq> length (the b) then Inr False
      else timingSafeEqual (Buffer_from (the a)) (Buffer_from (the b)))"

text \<open>What a handler sends: the status code and the JSON body's fields.\<close>

record response =
  res_status :: nat
  res_success :: bool
  res_text :: string
  res_challenge :: bool

definition json :: "nat \<Rightarrow> bool \<Rightarrow> string \<Rightarrow> response" where
  "json code ok txt = \<lparr>res_status = code, res_success = ok, res_text = txt, res_challenge = False\<rparr>"

text \<open>
  The outcome of a middleware: it calls \<open>next()\<close>, it sends a response, or it throws (the
  framework then answers with its own error response and the route's handler does not run).
\<close>

datatype mw_result = Next | Respond response | Throws js_error

text \<open>\<open>authenticateApiKey(database)\<close> on the value of the \<open>x-api-key\<close> header.\<close>

definition authenticateApiKey :: "database \<Rightarrow> jsstring option \<Rightarrow> mw_result" where
  "authenticateApiKey db apiKey =
     (if \<not> truthy apiKey then Respond (json 401 False ''API key required'')
      else case getApiKey db of
        None \<Rightarrow> Respond (json 500 False ''API key not configured'')
      | Some storedKey \<Rightarrow>
          (case timingSafeCompare apiKey (Some (key storedKey)) of
             Inl e \<Rightarrow> Throws e
           | Inr isValid \<Rightarrow>
               if \<not> isValid then Respond (json 401 False ''Invalid API key'') else Next))"

text \<open>
  \<open>authenticateBasicAuth(config)\<close> on the value of the \<open>authorization\<close> header. The
  decoder \<open>Buffer.from(_, 'base64').toString('utf-8')\<close> is a parameter; the configured
  user and password are \<open>config.DASHBOARD_USER\<close> and \<open>config.DASHBOARD_PASSWORD\<close>.
\<close>

definition unauthorized :: "string \<Rightarrow> response" where
  "unauthorized txt = (json 401 False txt)\<lparr>res_challenge := True\<rparr>"

definition authenticateBasicAuth ::
  "(jsstring \<Rightarrow> jsstring) \<Rightarrow> jsstring option \<Rightarrow> jsstring option \<Rightarrow> jsstring option \<Rightarrow> mw_result" where
  "authenticateBasicAuth decode DASHBOARD_USER DASHBOARD_PASSWORD authHeader =
     (if \<not> truthy authHeader \<or> \<not> startsWith (the authHeader) (js ''Basic '')
      then Respond (unauthorized ''Authentication required'')
      else case at_index (split_str 0x20 (the authHeader)) 1 of
        None \<Rightarrow> Throws TypeError
      | Some base64Credentials \<Rightarrow>
          (let credentials = decode base64Credentials;
               parts = split_str 0x3A credentials;
               username = at_index parts 0;
               password = at_index parts 1
           in case timingSafeCompare username DASHBOARD_USER of
                Inl e \<Rightarrow> Throws e
              | Inr validUsername \<Rightarrow>
                  (case timingSafeCompare password DASHBOARD_PASSWORD of
                     Inl e \<Rightarrow> Throws e
                   | Inr validPassword \<Rightarrow>
                       if \<not> validUsername \<or> \<not> validPassword
                       then Respond (unauthorized ''Invalid credentials'')
                       else Next)))"

text \<open>A database whose only key row holds the empty string, and one holding \<open>abc\<close>.\<close>

definition db_blank_key :: database where
  "db_blank_key = db_empty\<lparr>api_keys := [\<lparr>k_id = 1, key = [], k_created_at = 0\<rparr>]\<rparr>"

definition db_abc_key :: database where
  "db_abc_key = db_empty\<lparr>api_keys := [\<lparr>k_id = 1, key = js ''abc'', k_created_at = 0\<rparr>]\<rparr>"






section \<open>ConnectionManager (src/api/state.js, src/api/whatsapp.js, src/api/routes.js)\<close>

text \<open>
  The class \<open>WhatsAppState\<close>. A socket is named by its number in the order of creation;
  \<open>reconnectFn\<close> tells whether the reconnect function has been stored.
\<close>

record WhatsAppState =
  sock :: "nat option"
  qrCode :: "jsstring option"
  connected :: bool
  phone :: "jsstring option"
  reconnectFn :: bool

definition WhatsAppState_new :: WhatsAppState where
  "WhatsAppState_new =
     \<lparr>sock = None, qrCode = None, connected = False, phone = None, reconnectFn = False\<rparr>"

definition setSock :: "nat option \<Rightarrow> WhatsAppState \<Rightarrow> WhatsAppState" where
  "setSock s st = st\<lparr>sock := s\<rparr>"

definition setReconnectFn :: "WhatsAppState \<Rightarrow> WhatsAppState" where
  "setReconnectFn st = st\<lparr>reconnectFn := True\<rparr>"

definition setQrCode :: "jsstring option \<Rightarrow> WhatsAppState \<Rightarrow> WhatsAppState" where
  "setQrCode q st = st\<lparr>qrCode := q\<rparr>"

definition setConnected :: "bool \<Rightarrow> jsstring option \<Rightarrow> WhatsAppState \<Rightarrow> WhatsAppState" where
  "setConnected c p st = st\<lparr>connected := c, phone := p\<rparr>"

record status_report =
  st_connected :: bool
  st_phone :: "jsstring option"
  hasQrCode :: bool

definition getStatus :: "WhatsAppState \<Rightarrow> status_report" where
  "getStatus st =
     \<lparr>st_connected = connected st, st_phone = phone st, hasQrCode = (qrCode st \<noteq> None)\<rparr>"

text \<open>
  The code keeps no status field. The three-valued status of the specification is read
  off the report of \<open>getStatus\<close>, in the order in which the \<open>/qr\<close> handler tests it:
  connected first, then the presence of a QR code.
\<close>

datatype status = Disconnected | AwaitingPairing | Connected

definition status_of :: "WhatsAppState \<Rightarrow> status" where
  "status_of st =
     (if st_connected (getStatus st) then Connected
      else if hasQrCode (getStatus st) then AwaitingPairing
      else Disconnected)"

text \<open>
  A \<open>connection.update\<close> event: the fields the handler reads, with
  \<open>lastDisconnect?.error?.output?.statusCode\<close> as \<open>statusCode\<close>.
\<close>

datatype connection = Close | Open | Connecting

record update =
  connection :: "connection option"
  statusCode :: "nat option"
  qr :: "jsstring option"

text \<open>
  What the handlers act on besides the state object: the handlers of
  \<open>connection.update\<close> that are suspended at \<open>await QRCode.toDataURL(qr)\<close> (the update of
  each), the number of logout handlers suspended at \<open>await sock.logout()\<close>, the
  pending \<open>setTimeout\<close> calls (the delay of each; every one of them runs
  \<open>connectToWhatsApp\<close> when it fires), the number of sockets made so far, whether the
  session folder exists, the sockets whose \<open>logout()\<close> has been called, and the log
  (level and message).
\<close>

record world =
  state :: WhatsAppState
  suspended :: "update list"
  logouts_suspended :: nat
  timers :: "nat list"
  sockets :: nat
  session_dir :: bool
  logout_calls :: "nat list"
  logged :: "(string \<times> string) list"

definition logger :: "string \<Rightarrow> string \<Rightarrow> world \<Rightarrow> world" where
  "logger level txt w = w\<lparr>logged := logged w @ [(level, txt)]\<rparr>"

definition setTimeout :: "nat \<Rightarrow> world \<Rightarrow> world" where
  "setTimeout delay w = w\<lparr>timers := timers w @ [delay]\<rparr>"

definition on_state :: "(WhatsAppState \<Rightarrow> WhatsAppState) \<Rightarrow> world \<Rightarrow> world" where
  "on_state f w = w\<lparr>state := f (state w)\<rparr>"

text \<open>
  \<open>connectToWhatsApp\<close>: \<open>useMultiFileAuthState(sessionPath)\<close> makes the session folder
  when it is missing, then a new socket is made and stored in the state.
\<close>

definition connectToWhatsApp :: "world \<Rightarrow> world" where
  "connectToWhatsApp w =
     on_state (setSock (Some (Suc (sockets w))))
       (w\<lparr>sockets := Suc (sockets w), session_dir := True\<rparr>)"

text \<open>
  \<open>initializeWhatsApp\<close>: a new state object, the reconnect function stored, the first
  connection made.
\<close>

definition world_new :: "bool \<Rightarrow> world" where
  "world_new session =
     \<lparr>state = WhatsAppState_new, suspended = [], logouts_suspended = 0, timers = [], sockets = 0,
      session_dir = session, logout_calls = [], logged = []\<rparr>"

definition initializeWhatsApp :: "bool \<Rightarrow> world" where
  "initializeWhatsApp session = connectToWhatsApp (on_state setReconnectFn (world_new session))"

text \<open>
  What a handler finds around it: the result of \<open>QRCode.toDataURL(qr)\<close> (\<open>None\<close> when
  it throws) and the user of its socket: \<open>sock.user\<close> is \<open>undefined\<close>, or it has no
  \<open>id\<close>, or it has one.
\<close>

datatype sock_user = NoUser | UserWithoutId | User jsstring

record update_env =
  toDataURL :: "jsstring option"
  sock_user :: sock_user

text \<open>\<open>DisconnectReason.loggedOut\<close> of the protocol library.\<close>

definition loggedOut :: nat where
  "loggedOut = 401"

text \<open>
  The handler in two parts. After the \<open>await\<close>: the rendered QR code is stored, or the
  failure to render it is logged.
\<close>

definition qr_rendered :: "jsstring option \<Rightarrow> world \<Rightarrow> world" where
  "qr_rendered result w =
     (case result of
        Some qrDataUrl \<Rightarrow>
          logger ''info'' ''QR code generated'' (on_state (setQrCode (Some qrDataUrl)) w)
      | None \<Rightarrow> logger ''error'' ''Failed to generate QR code:'' w)"

text \<open>
  Then the test of \<open>connection\<close>. On \<open>open\<close>, \<open>sock.user?.id.split(':')[0]\<close> is
  \<open>undefined\<close> without a user and throws a TypeError on a user without \<open>id\<close>: the
  handler ends there, after its first log line.
\<close>

definition connection_changed :: "update \<Rightarrow> sock_user \<Rightarrow> world \<Rightarrow> world" where
  "connection_changed u user w1 =
     (if connection u = Some Close then
        (let shouldReconnect = (statusCode u \<noteq> Some loggedOut);
             w2 = on_state (setConnected False None) (logger ''info'' ''Connection closed'' w1)
         in
         if shouldReconnect then
           setTimeout 5000 (logger ''info'' ''Reconnecting in 5 seconds...'' w2)
         else
           setTimeout 2000
             (on_state (setQrCode None) (logger ''info'' ''Logged out. QR scan required.'' w2)))
      else if connection u = Some Open then
        (case user of
           UserWithoutId \<Rightarrow> logger ''info'' ''WhatsApp connected'' w1
         | _ \<Rightarrow>
             (let phone' = (case user of
                              User uid \<Rightarrow> at_index (split_str 0x3A uid) 0
                            | _ \<Rightarrow> None)
              in
              logger ''info'' ''Connected phone:''
                (on_state (setQrCode None)
                  (on_state (setConnected True phone')
                    (logger ''info'' ''WhatsApp connected'' w1)))))
      else w1)"

text \<open>
  The whole handler when nothing else runs while it is suspended. Without a truthy
  \<open>qr\<close> there is no \<open>await\<close>.
\<close>

definition connection_update :: "update \<Rightarrow> update_env \<Rightarrow> world \<Rightarrow> world" where
  "connection_update u env w =
     connection_changed u (sock_user env)
       (if truthy (qr u) then qr_rendered (toDataURL env) w else w)"

text \<open>
  The handler when other events run in between: with a truthy \<open>qr\<close> it is suspended at
  the \<open>await\<close>, and it resumes later, in the world as it is then.
\<close>

definition update_suspends :: "update \<Rightarrow> world \<Rightarrow> world" where
  "update_suspends u w = (if truthy (qr u) then w\<lparr>suspended := suspended w @ [u]\<rparr> else w)"

definition update_resumes :: "nat \<Rightarrow> update_env \<Rightarrow> world \<Rightarrow> world" where
  "update_resumes i env w =
     (if i < length (suspended w)
      then connection_update (suspended w ! i) env
             (w\<lparr>suspended := take i (suspended w) @ drop (Suc i) (suspended w)\<rparr>)
      else w)"

text \<open>
  A pending timer fires: it leaves the list and \<open>connectToWhatsApp\<close> runs. The callback
  of the 2000 ms timer, set after a remote logout, logs a line first.
\<close>

definition fire_timer :: "nat \<Rightarrow> world \<Rightarrow> world" where
  "fire_timer i w =
     (if i < length (timers w) then
        (let w' = w\<lparr>timers := take i (timers w) @ drop (Suc i) (timers w)\<rparr> in
         if timers w ! i = 2000
         then connectToWhatsApp (logger ''info'' ''Reconnecting to generate QR code...'' w')
         else connectToWhatsApp w')
      else w)"

text \<open>
  The handler of \<open>POST /logout\<close>, after authentication. Its surroundings: whether
  \<open>sock.logout()\<close> rejects, \<open>config.SESSION_PATH\<close> (\<open>path.resolve\<close> throws on
  \<open>undefined\<close>), and whether \<open>fs.rmSync\<close> throws. Everything after the test of
  \<open>sock\<close> is inside one \<open>try\<close>, whose \<open>catch\<close> answers 500.
\<close>

record logout_env =
  logout_rejects :: bool
  SESSION_PATH :: "jsstring option"
  rmSync_throws :: bool

definition logout_failed :: "world \<Rightarrow> response \<times> world" where
  "logout_failed w = (json 500 False ''Logout failed'', logger ''error'' ''Logout error:'' w)"

definition post_logout :: "logout_env \<Rightarrow> world \<Rightarrow> response \<times> world" where
  "post_logout env w =
     (case sock (state w) of
        None \<Rightarrow> (json 400 False ''Not connected'', w)
      | Some s \<Rightarrow>
          (let w1 = w\<lparr>logout_calls := logout_calls w @ [s]\<rparr> in
           if logout_rejects env then logout_failed w1
           else
             (let w2 = on_state (setSock None) (on_state (setConnected False None) w1) in
              if SESSION_PATH env = None then logout_failed w2
              else if session_dir w2 \<and> rmSync_throws env then logout_failed w2
              else
                (let w3 = (if session_dir w2
                           then logger ''info'' ''Session folder deleted'' (w2\<lparr>session_dir := False\<rparr>)
                           else w2);
                     w4 = (if reconnectFn (state w3)
                           then setTimeout 3000
                                  (logger ''info'' ''Triggering reconnection for new QR code...'' w3)
                           else w3)
                 in (json 200 True
                       ''Logged out successfully. Reconnecting to generate new QR code...'',
                     logger ''info'' ''Logged out successfully'' w4)))))"

text \<open>
  The same handler when other events run while it is suspended at
  \<open>await sock.logout()\<close>: the call is made on the socket of the moment, and what follows
  the \<open>await\<close> acts on the world as it is when the handler resumes.
\<close>

definition logout_suspends :: "world \<Rightarrow> world" where
  "logout_suspends w =
     (case sock (state w) of
        None \<Rightarrow> w
      | Some s \<Rightarrow>
          w\<lparr>logout_calls := logout_calls w @ [s], logouts_suspended := Suc (logouts_suspended w)\<rparr>)"

definition after_logout :: "logout_env \<Rightarrow> world \<Rightarrow> response \<times> world" where
  "after_logout env w1 =
     (if logout_rejects env then logout_failed w1
      else
        (let w2 = on_state (setSock None) (on_state (setConnected False None) w1) in
         if SESSION_PATH env = None then logout_failed w2
         else if session_dir w2 \<and> rmSync_throws env then logout_failed w2
         else
           (let w3 = (if session_dir w2
                      then logger ''info'' ''Session folder deleted'' (w2\<lparr>session_dir := False\<rparr>)
                      else w2);
                w4 = (if reconnectFn (state w3)
                      then setTimeout 3000
                             (logger ''info'' ''Triggering reconnection for new QR code...'' w3)
                      else w3)
            in (json 200 True
                  ''Logged out successfully. Reconnecting to generate new QR code...'',
                logger ''info'' ''Logged out successfully'' w4))))"

definition logout_resumes :: "logout_env \<Rightarrow> world \<Rightarrow> world" where
  "logout_resumes env w =
     (if 0 < logouts_suspended w
      then snd (after_logout env (w\<lparr>logouts_suspended := logouts_suspended w - 1\<rparr>))
      else w)"

text \<open>The route: the shared-secret middleware, then the handler.\<close>

definition express_error :: response where
  "express_error = json 500 False ''Internal Server Error''"

definition route_logout ::
  "database \<Rightarrow> jsstring option \<Rightarrow> logout_env \<Rightarrow> world \<Rightarrow> response \<times> world" where
  "route_logout db apiKey env w =
     (case authenticateApiKey db apiKey of
        Next \<Rightarrow> post_logout env w
      | Respond r \<Rightarrow> (r, w)
      | Throws e \<Rightarrow> (express_error, w))"

text \<open>
  The events that change the connection state, and a run of them from the state that
  \<open>initializeWhatsApp\<close> leaves. A \<open>connection.update\<close> is handled either in one piece
  (\<open>ConnectionUpdate\<close>) or in two, with other events in between (\<open>UpdateSuspends\<close>, then
  \<open>UpdateResumes\<close> with the position of the handler among the suspended ones), and so
  is a logout request (\<open>LogoutRequest\<close>, or \<open>LogoutSuspends\<close> then \<open>LogoutResumes\<close>).
\<close>

datatype conn_event =
    ConnectionUpdate update update_env
  | UpdateSuspends update
  | UpdateResumes nat update_env
  | TimerFires nat
  | LogoutRequest logout_env
  | LogoutSuspends
  | LogoutResumes logout_env

fun conn_step :: "world \<Rightarrow> conn_event \<Rightarrow> world" where
  "conn_step w (ConnectionUpdate u env) = connection_update u env w"
| "conn_step w (UpdateSuspends u) = update_suspends u w"
| "conn_step w (UpdateResumes i env) = update_resumes i env w"
| "conn_step w (TimerFires i) = fire_timer i w"
| "conn_step w (LogoutRequest env) = snd (post_logout env w)"
| "conn_step w LogoutSuspends = logout_suspends w"
| "conn_step w (LogoutResumes env) = logout_resumes env w"

definition run :: "world \<Rightarrow> conn_event list \<Rightarrow> world" where
  "run w evs = foldl conn_step w evs"









text \<open>
  Sample events: a pairing challenge that renders, a session-open signal on a socket
  with a user, one on a socket without, and the surroundings of two logout requests.
\<close>

definition qr_challenge :: update where
  "qr_challenge = \<lparr>connection = None, statusCode = None, qr = Some (js ''2@abc'')\<rparr>"

definition qr_found :: update_env where
  "qr_found = \<lparr>toDataURL = Some (js ''data:image/png;base64,AAAA''), sock_user = NoUser\<rparr>"

definition qr_event :: conn_event where
  "qr_event = ConnectionUpdate qr_challenge qr_found"

definition open_event :: conn_event where
  "open_event = ConnectionUpdate
     \<lparr>connection = Some Open, statusCode = None, qr = None\<rparr>
     \<lparr>toDataURL = None, sock_user = User (js ''1234567890:1@s.whatsapp.net'')\<rparr>"


definition logout_succeeds :: logout_env where
  "logout_succeeds =
     \<lparr>logout_rejects = False, SESSION_PATH = Some (js ''./session''), rmSync_throws = False\<rparr>"

definition logout_fails :: logout_env where
  "logout_fails =
     \<lparr>logout_rejects = True, SESSION_PATH = Some (js ''./session''), rmSync_throws = False\<rparr>"

section \<open>WebhookDispatcher (src/api/whatsapp.js)\<close>

text \<open>
  The notification built by the ingestion handler, and one call of \<open>fetch\<close>: the URL,
  the method, the content type, the data that \<open>JSON.stringify\<close> turns into the body, and
  the delay of \<open>AbortSignal.timeout\<close> in milliseconds.
\<close>

record webhook_message =
  wm_id :: nat
  wm_from :: "jsstring option"
  wm_text :: jsstring
  wm_mediaType :: jsstring
  wm_mediaUrl :: "jsstring option"
  wm_timestamp :: jsstring

record webhook_data =
  wd_event :: jsstring
  wd_message :: webhook_message

record fetch_call =
  f_url :: jsstring
  f_method :: string
  f_content_type :: string
  f_body :: webhook_data
  f_timeout :: nat

text \<open>
  What a call of \<open>fetch\<close> comes to: a response with its HTTP status, or a rejection
  (the timeout elapsed, the connection failed, or any other transport error).
  \<open>response.ok\<close> holds for the statuses 200 to 299.
\<close>

datatype fetch_result = HttpResponse nat | FetchRejects

definition response_ok :: "nat \<Rightarrow> bool" where
  "response_ok st = (200 \<le> st \<and> st \<le> 299)"

text \<open>The calls of \<open>fetch\<close> made so far and what the dispatcher has logged.\<close>

record outbox =
  fetch_calls :: "fetch_call list"
  dispatch_log :: "(string \<times> string) list"

definition dispatch_logger :: "string \<Rightarrow> string \<Rightarrow> outbox \<Rightarrow> outbox" where
  "dispatch_logger level txt ob = ob\<lparr>dispatch_log := dispatch_log ob @ [(level, txt)]\<rparr>"

text \<open>\<open>try { body } catch (error) { handler }\<close> on computations that may throw.\<close>

definition try_catch :: "js_error + 'a \<Rightarrow> (js_error \<Rightarrow> js_error + 'a) \<Rightarrow> js_error + 'a" where
  "try_catch body handler = (case body of Inl error \<Rightarrow> handler error | Inr v \<Rightarrow> Inr v)"

text \<open>
  \<open>callWebhook(url, data, logger)\<close>; the network is the parameter \<open>fetch\<close>. The result is
  \<open>Inl\<close> when the promise rejects.
\<close>

definition callWebhook ::
  "(fetch_call \<Rightarrow> fetch_result) \<Rightarrow> jsstring \<Rightarrow> webhook_data \<Rightarrow> outbox \<Rightarrow> js_error + outbox" where
  "callWebhook fetch url' data' ob =
     (let call = \<lparr>f_url = url', f_method = ''POST'', f_content_type = ''application/json'',
                  f_body = data', f_timeout = 5000\<rparr>;
          ob1 = ob\<lparr>fetch_calls := fetch_calls ob @ [call]\<rparr>
      in try_catch
           (case fetch call of
              FetchRejects \<Rightarrow> Inl ExternalError
            | HttpResponse st \<Rightarrow>
                if \<not> response_ok st
                then Inr (dispatch_logger ''warn'' ''Webhook call failed'' ob1)
                else Inr (dispatch_logger ''info'' ''Webhook called successfully'' ob1))
           (\<lambda>error. Inr (dispatch_logger ''error'' ''Webhook error'' ob1)))"

section \<open>MessageIngestionPipeline (src/database/index.js, src/api/whatsapp.js)\<close>

text \<open>
  \<open>insertMessage\<close> with its eight parameters; the value of \<open>getISTTimestamp()\<close> is the
  last argument. \<open>phone\<close> is NOT NULL: a missing sender makes the statement throw. The
  result is \<open>lastInsertRowid\<close> and the new database.
\<close>

definition insertMessage ::
  "database \<Rightarrow> jsstring \<Rightarrow> jsstring option \<Rightarrow> jsstring \<Rightarrow> jsstring \<Rightarrow> jsstring option
     \<Rightarrow> jsstring option \<Rightarrow> jsstring option \<Rightarrow> jsstring \<Rightarrow> js_error + (nat \<times> database)" where
  "insertMessage db direction' phone' message' status' mediaType mediaUrl senderName timestamp =
     (case phone' of
        None \<Rightarrow> Inl SqliteConstraint
      | Some p \<Rightarrow>
          (let i = next_id (map m_id (messages db)) in
           Inr (i, db\<lparr>messages := messages db @
                  [\<lparr>m_id = i, direction = direction', col_phone = p, sender_name = senderName,
                    col_message = message', reply_status = status', media_type = mediaType,
                    media_url = mediaUrl, created_at = timestamp\<rparr>]\<rparr>)))"

text \<open>\<open>UPDATE messages SET media_url = ? WHERE id = ?\<close>.\<close>

definition update_media_url :: "jsstring option \<Rightarrow> nat \<Rightarrow> database \<Rightarrow> database" where
  "update_media_url mediaUrl i db =
     db\<lparr>messages := map (\<lambda>r. if m_id r = i then r\<lparr>media_url := mediaUrl\<rparr> else r) (messages db)\<rparr>"

text \<open>\<open>SELECT * FROM webhooks WHERE event = ? AND active = 1 LIMIT 1\<close>.\<close>

definition getWebhook :: "database \<Rightarrow> jsstring \<Rightarrow> webhook_row option" where
  "getWebhook db ev = find (\<lambda>r. event r = ev \<and> active r = 1) (webhooks db)"

text \<open>
  An inbound event. \<open>remoteJid\<close>, \<open>participant\<close> and \<open>fromMe\<close> are the fields of
  \<open>msg.key\<close>; \<open>message\<close> is \<open>msg.message\<close>, with the three bodies the handler reads.
\<close>

record imageMessage =
  caption :: "jsstring option"

record extendedTextMessage =
  ext_text :: "jsstring option"

record wa_message =
  conversation :: "jsstring option"
  extendedTextMessage :: "extendedTextMessage option"
  imageMessage :: "imageMessage option"

record wa_msg =
  remoteJid :: "jsstring option"
  participant :: "jsstring option"
  fromMe :: bool
  pushName :: "jsstring option"
  message :: "wa_message option"

text \<open>
  The counterparty: \<open>msg.key.remoteJid\<close>, replaced by \<open>msg.key.participant\<close> when the
  former ends with \<open>@lid\<close> and the latter is truthy and includes \<open>@s.whatsapp.net\<close>.
\<close>

definition resolve_from :: "wa_msg \<Rightarrow> jsstring option" where
  "resolve_from msg =
     (let from = remoteJid msg in
      if truthy from \<and> endsWith (the from) (js ''@lid'') then
        (if truthy (participant msg) \<and> includes_str (the (participant msg)) (js ''@s.whatsapp.net'')
         then participant msg
         else from)
      else from)"

text \<open>
  \<open>msg.message.conversation || msg.message.extendedTextMessage?.text ||
  imageMessage?.caption || ''\<close>.
\<close>

definition extract_text :: "wa_message \<Rightarrow> jsstring" where
  "extract_text m =
     (case js_or (js_or (js_or (conversation m)
                               (Option.bind (extendedTextMessage m) ext_text))
                        (Option.bind (imageMessage m) caption))
                 (Some []) of
        Some t \<Rightarrow> t
      | None \<Rightarrow> [])"

text \<open>The decimal numeral of a row id, for the template \<open>`${messageId}.jpg`\<close>.\<close>

function decimal :: "nat \<Rightarrow> jsstring" where
  "decimal n = (if n < 10 then [0x30 + of_nat n] else decimal (n div 10) @ [0x30 + of_nat (n mod 10)])"
  by pat_completeness auto
termination
  by (relation "measure id") auto

declare decimal.simps [simp del]

text \<open>
  What the ingestion handler acts on: the database, the files of the media folder, the
  webhook dispatcher's outbox, and the log. Its surroundings: the result of
  \<open>downloadMediaMessage\<close> (\<open>None\<close> when it throws), whether \<open>fs.writeFileSync\<close> throws on a
  file name, the two clock readings, and the network.
\<close>

record store =
  st_db :: database
  media_files :: "(jsstring \<times> buffer) list"
  dispatched :: outbox
  ingest_log :: "(string \<times> string) list"

record ingest_env =
  downloadMediaMessage :: "wa_msg \<Rightarrow> buffer option"
  writeFileSync_throws :: "jsstring \<Rightarrow> bool"
  getISTTimestamp :: jsstring
  toISOString :: jsstring
  network :: "fetch_call \<Rightarrow> fetch_result"

definition ingest_logger :: "string \<Rightarrow> string \<Rightarrow> store \<Rightarrow> store" where
  "ingest_logger level txt st = st\<lparr>ingest_log := ingest_log st @ [(level, txt)]\<rparr>"

text \<open>
  The call of \<open>callWebhook\<close> is not awaited: the handler goes on whatever becomes of it,
  and the dispatcher's effects are kept in the outbox.
\<close>

definition dispatch_detached ::
  "(fetch_call \<Rightarrow> fetch_result) \<Rightarrow> jsstring \<Rightarrow> webhook_data \<Rightarrow> store \<Rightarrow> store" where
  "dispatch_detached net url' data' st =
     (case callWebhook net url' data' (dispatched st) of
        Inl e \<Rightarrow> st
      | Inr ob \<Rightarrow> st\<lparr>dispatched := ob\<rparr>)"

text \<open>
  The steps of the \<open>try\<close> block for one stored message. First the download of the
  image, when there is one: the buffer and the media type \<open>image\<close>, or, when the
  download throws, a logged error and the media type left at \<open>text\<close>.
\<close>

definition download_image ::
  "ingest_env \<Rightarrow> wa_msg \<Rightarrow> bool \<Rightarrow> store \<Rightarrow> buffer option \<times> jsstring \<times> store" where
  "download_image env msg has_image st =
     (if has_image then
        (case downloadMediaMessage env msg of
           Some buf \<Rightarrow> (Some buf, js ''image'', st)
         | None \<Rightarrow> (None, js ''text'', ingest_logger ''error'' ''Failed to download image:'' st))
      else (None, js ''text'', st))"

text \<open>
  The image is written under the name \<open>`${messageId}.jpg`\<close> and the row's \<open>media_url\<close>
  is set to that name; without a buffer nothing happens. The result is \<open>mediaUrl\<close>.
\<close>

definition save_image ::
  "ingest_env \<Rightarrow> nat \<Rightarrow> buffer option \<Rightarrow> store \<Rightarrow> (js_error \<times> store) + (jsstring option \<times> store)" where
  "save_image env messageId imageBuffer st =
     (case imageBuffer of
        None \<Rightarrow> Inr (None, st)
      | Some buf \<Rightarrow>
          (let filename = decimal messageId @ js ''.jpg'' in
           if writeFileSync_throws env filename then Inl (ExternalError, st)
           else Inr (Some filename,
                     ingest_logger ''info'' ''Image downloaded''
                       (st\<lparr>media_files := media_files st @ [(filename, buf)],
                           st_db := update_media_url (Some filename) messageId (st_db st)\<rparr>))))"

text \<open>The notification, when a webhook with a truthy URL is configured.\<close>

definition notify_webhook ::
  "ingest_env \<Rightarrow> nat \<Rightarrow> jsstring option \<Rightarrow> jsstring \<Rightarrow> jsstring \<Rightarrow> jsstring option \<Rightarrow> store \<Rightarrow> store" where
  "notify_webhook env messageId from text' mediaType mediaUrl st =
     (case getWebhook (st_db st) (js ''message.received'') of
        None \<Rightarrow> st
      | Some webhook \<Rightarrow>
          if url webhook \<noteq> [] then
            dispatch_detached (network env) (url webhook)
              \<lparr>wd_event = js ''message.received'',
               wd_message = \<lparr>wm_id = messageId, wm_from = from, wm_text = text',
                             wm_mediaType = mediaType, wm_mediaUrl = mediaUrl,
                             wm_timestamp = toISOString env\<rparr>\<rparr> st
          else st)"

text \<open>
  The whole block: download, insert, save the image, log, notify. \<open>Inl\<close> carries the
  store as the thrown error leaves it.
\<close>

definition store_message ::
  "ingest_env \<Rightarrow> wa_msg \<Rightarrow> jsstring option \<Rightarrow> jsstring \<Rightarrow> bool \<Rightarrow> store \<Rightarrow> (js_error \<times> store) + store" where
  "store_message env msg from text' has_image st =
     (case download_image env msg has_image st of
        (imageBuffer, mediaType, st1) \<Rightarrow>
          (let senderName = (if truthy (pushName msg) then pushName msg else None) in
           case insertMessage (st_db st1) (js ''incoming'') from text' (js ''unread'')
                  (Some mediaType) None senderName (getISTTimestamp env) of
             Inl e \<Rightarrow> Inl (e, st1)
           | Inr (messageId, db') \<Rightarrow>
               (case save_image env messageId imageBuffer (st1\<lparr>st_db := db'\<rparr>) of
                  Inl thrown \<Rightarrow> Inl thrown
                | Inr (mediaUrl, st3) \<Rightarrow>
                    Inr (notify_webhook env messageId from text' mediaType mediaUrl
                           (ingest_logger ''info'' ''Message received'' st3)))))"

text \<open>The store that the block leaves, whether it ends normally or by a throw.\<close>

definition landed :: "(js_error \<times> store) + store \<Rightarrow> store" where
  "landed r = (case r of Inl (error, st') \<Rightarrow> st' | Inr st' \<Rightarrow> st')"

text \<open>One turn of the loop over \<open>messages\<close>.\<close>

definition handle_msg :: "ingest_env \<Rightarrow> store \<Rightarrow> wa_msg \<Rightarrow> store" where
  "handle_msg env st msg =
     (case message msg of
        None \<Rightarrow> st
      | Some m \<Rightarrow>
          (let st0 = (if truthy (remoteJid msg) \<and> endsWith (the (remoteJid msg)) (js ''@lid'')
                      then ingest_logger ''info'' ''LID message detected'' st
                      else st);
               from = resolve_from msg;
               text' = extract_text m
           in
           if \<not> fromMe msg \<and> (text' \<noteq> [] \<or> imageMessage m \<noteq> None) then
             (case store_message env msg from text' (imageMessage m \<noteq> None) st0 of
                Inl (error, st') \<Rightarrow> ingest_logger ''error'' ''Failed to store message:'' st'
              | Inr st' \<Rightarrow> st')
           else st0))"

text \<open>The handler of \<open>messages.upsert\<close>.\<close>

definition messages_upsert :: "ingest_env \<Rightarrow> wa_msg list \<Rightarrow> jsstring \<Rightarrow> store \<Rightarrow> store" where
  "messages_upsert env msgs type' st =
     (if type' \<noteq> js ''notify'' then st else foldl (handle_msg env) st msgs)"

text \<open>The precedence of the bodies as the specification words it: the first that is present.\<close>

definition first_present_body :: "wa_message \<Rightarrow> jsstring" where
  "first_present_body m =
     (case conversation m of
        Some t \<Rightarrow> t
      | None \<Rightarrow>
          (case Option.bind (extendedTextMessage m) ext_text of
             Some t \<Rightarrow> t
           | None \<Rightarrow>
               (case Option.bind (imageMessage m) caption of
                  Some c \<Rightarrow> c
                | None \<Rightarrow> [])))"

text \<open>Sample events and surroundings.\<close>

definition store_new :: store where
  "store_new = \<lparr>st_db = db_empty, media_files = [],
                dispatched = \<lparr>fetch_calls = [], dispatch_log = []\<rparr>, ingest_log = []\<rparr>"

definition env_offline :: ingest_env where
  "env_offline = \<lparr>downloadMediaMessage = (\<lambda>m. None), writeFileSync_throws = (\<lambda>f. False),
     getISTTimestamp = js ''2025-01-01 12:00:00'', toISOString = js ''2025-01-01T06:30:00.000Z'',
     network = (\<lambda>c. FetchRejects)\<rparr>"

definition image_msg :: wa_msg where
  "image_msg = \<lparr>remoteJid = Some (js ''123@s.whatsapp.net''), participant = None, fromMe = False,
     pushName = Some (js ''Ann''),
     message = Some \<lparr>conversation = None, extendedTextMessage = None,
                      imageMessage = Some \<lparr>caption = Some (js ''look'')\<rparr>\<rparr>\<rparr>"

definition lid_msg :: wa_msg where
  "lid_msg = \<lparr>remoteJid = Some (js ''77@lid''), participant = Some (js ''123@s.whatsapp.net''),
     fromMe = False, pushName = None,
     message = Some \<lparr>conversation = Some (js ''hi''), extendedTextMessage = None,
                      imageMessage = None\<rparr>\<rparr>"

definition empty_plain_body :: wa_message where
  "empty_plain_body = \<lparr>conversation = Some [],
     extendedTextMessage = Some \<lparr>ext_text = Some (js ''hi'')\<rparr>, imageMessage = None\<rparr>"

definition captioned_body :: wa_message where
  "captioned_body = \<lparr>conversation = None,
     extendedTextMessage = Some \<lparr>ext_text = Some (js ''hi'')\<rparr>,
     imageMessage = Some \<lparr>caption = Some (js ''look'')\<rparr>\<rparr>"

text \<open>
  The two address forms as the specification names them, and the counterparty as it
  words the rule: the participant when the sender is in the alias form and the
  participant is present and in the canonical form, otherwise the sender.
\<close>

definition alias_form :: "jsstring \<Rightarrow> bool" where
  "alias_form a = endsWith a (js ''@lid'')"

definition canonical_form :: "jsstring \<Rightarrow> bool" where
  "canonical_form a = endsWith a (js ''@s.whatsapp.net'')"

definition counterparty_by_form :: "wa_msg \<Rightarrow> jsstring option" where
  "counterparty_by_form msg =
     (case (remoteJid msg, participant msg) of
        (Some sender, Some p) \<Rightarrow> if alias_form sender \<and> canonical_form p then Some p else Some sender
      | (sender, _) \<Rightarrow> sender)"

text \<open>
  More sample events: an image with a caption and a plain text, and an alias sender
  with a participant that contains the canonical suffix without ending with it.
\<close>

definition image_msg_with_text :: wa_msg where
  "image_msg_with_text = \<lparr>remoteJid = Some (js ''123@s.whatsapp.net''), participant = None,
     fromMe = False, pushName = None,
     message = Some \<lparr>conversation = Some (js ''hi''), extendedTextMessage = None,
                      imageMessage = Some \<lparr>caption = Some (js ''look'')\<rparr>\<rparr>\<rparr>"

definition lid_msg_other_domain :: wa_msg where
  "lid_msg_other_domain = \<lparr>remoteJid = Some (js ''77@lid''),
     participant = Some (js ''9@s.whatsapp.net.example''), fromMe = False, pushName = None,
     message = Some \<lparr>conversation = Some (js ''hi''), extendedTextMessage = None,
                      imageMessage = None\<rparr>\<rparr>"

definition image_msg_no_sender :: wa_msg where
  "image_msg_no_sender = image_msg\<lparr>remoteJid := None\<rparr>"

section \<open>Properties of API-key provisioning\<close>

lemma newest_None_iff: "newest rs = None \<longleftrightarrow> rs = []"
  by (induction rs) (auto split: option.splits)

lemma ensureApiKey_total:
  "\<exists>k db'. ensureApiKey db rnd now = Inr (k, db') \<and> (\<exists>row. getApiKey db' = Some row \<and> key row = k)"
proof (cases "getApiKey db")
  case None
  then have e: "api_keys db = []" by (simp add: getApiKey_def newest_None_iff)
  then show ?thesis using None
    by (simp add: ensureApiKey_def insertApiKey_def getApiKey_def Let_def)
next
  case (Some row)
  then show ?thesis by (simp add: ensureApiKey_def)
qed

lemma ensureApiKey_existing:
  "getApiKey db = Some row \<Longrightarrow> ensureApiKey db rnd now = Inr (key row, db)"
  by (simp add: ensureApiKey_def)

lemma ensureApiKey_all_existing:
  "getApiKey db = Some row \<Longrightarrow> ensureApiKey_all db calls = Inr db"
  by (induction calls) (auto simp: ensureApiKey_existing)

text \<open>
  C9. Provisioning is idempotent. From every database state the first call of
  \<open>ensureApiKey\<close> returns a key \<open>k\<close> without an error and leaves \<open>k\<close> as the stored key;
  a second call, whatever bytes it would draw and whenever it runs, returns the same \<open>k\<close>
  and leaves the database as it is; and so does every further sequence of calls, so the
  stored key never changes.
\<close>

theorem ensureApiKey_idempotent:
  "\<exists>k db1 row. ensureApiKey db rnd1 t1 = Inr (k, db1)
      \<and> ensureApiKey db1 rnd2 t2 = Inr (k, db1)
      \<and> getApiKey db1 = Some row \<and> key row = k
      \<and> ensureApiKey_all db1 calls = Inr db1"
proof -
  obtain k db1 row where 1: "ensureApiKey db rnd1 t1 = Inr (k, db1)"
    and 2: "getApiKey db1 = Some row" and 3: "key row = k"
    using ensureApiKey_total by blast
  from 2 3 have "ensureApiKey db1 rnd2 t2 = Inr (k, db1)"
    by (simp add: ensureApiKey_existing)
  moreover from 2 have "ensureApiKey_all db1 calls = Inr db1"
    by (rule ensureApiKey_all_existing)
  ultimately show ?thesis using 1 2 3 by blast
qed

text \<open>On the empty database with the drawn bytes 4D 61 6E the key is \<open>TWFu\<close>.\<close>

lemma ensureApiKey_example:
  "ensureApiKey db_empty [0x4D, 0x61, 0x6E] 7 =
     Inr (js ''TWFu'', db_empty\<lparr>api_keys := [\<lparr>k_id = 1, key = js ''TWFu'', k_created_at = 7\<rparr>]\<rparr>)"
  by (simp add: ensureApiKey_def getApiKey_def insertApiKey_def db_empty_def js_def
      b64char_def next_id_def Let_def)

section \<open>Properties of the AuthGateway\<close>

lemma timingSafeCompare_falsy:
  "\<not> truthy a \<or> \<not> truthy b \<Longrightarrow> timingSafeCompare a b = Inr False"
  by (auto simp: timingSafeCompare_def)


lemma timingSafeCompare_same:
  "a \<noteq> [] \<Longrightarrow> timingSafeCompare (Some a) (Some a) = Inr True"
  by (simp add: timingSafeCompare_def timingSafeEqual_def)

lemma timingSafeCompare_cases:
  "timingSafeCompare a b = Inr True \<or> timingSafeCompare a b = Inr False
     \<or> timingSafeCompare a b = Inl RangeError"
  by (simp add: timingSafeCompare_def timingSafeEqual_def)

text \<open>
  The key that \<open>ensureApiKey\<close> provisions is the base64 text of the random bytes: it is
  not empty, it becomes the stored key, and a request that supplies it is admitted. No
  other function of the program writes to \<open>api_keys\<close>.
\<close>

lemma base64_length: "length (base64 bs) = 4 * ((length bs + 2) div 3)"
proof (induction bs rule: base64.induct)
  case (4 a b c rest)
  have "(length (a # b # c # rest) + 2) div 3 = Suc ((length rest + 2) div 3)" by simp
  then show ?case using 4 by simp
qed simp_all

lemma base64_nonempty: "bs \<noteq> [] \<Longrightarrow> base64 bs \<noteq> []"
  using base64_length [of bs] by (cases bs) auto

lemma provisioned_key_stored:
  assumes "api_keys db0 = []" and "ensureApiKey db0 randomBytes now = Inr (k, db')"
  shows "k = base64 randomBytes \<and> (\<exists>stored. getApiKey db' = Some stored \<and> key stored = k)"
  using assms
  by (auto simp: ensureApiKey_def getApiKey_def insertApiKey_def Let_def)

lemma provisioned_key_admitted:
  assumes "randomBytes \<noteq> []" and "ensureApiKey db_empty randomBytes now = Inr (k, db')"
  shows "authenticateApiKey db' (Some k) = Next"
proof -
  have k: "k = base64 randomBytes"
    and d: "getApiKey db' = Some \<lparr>k_id = 1, key = k, k_created_at = now\<rparr>"
    using assms(2)
    by (auto simp: ensureApiKey_def getApiKey_def insertApiKey_def db_empty_def next_id_def Let_def)
  have "k \<noteq> []" using k assms(1) by (simp add: base64_nonempty)
  then show ?thesis
    by (simp add: authenticateApiKey_def d timingSafeCompare_same)
qed



text \<open>
  C10. \<open>timingSafeCompare\<close> is false whenever one of its arguments is empty or missing.
  So the shared-secret scheme answers 401 when the supplied secret is empty or missing,
  and when the stored secret is empty; and the basic-credential scheme never calls
  \<open>next()\<close> when the configured user or password is empty or missing, nor when the
  supplied user or password is, whether or not the two sides are equal.
\<close>

theorem empty_secret_rejected:
  "(\<not> truthy a \<or> \<not> truthy b \<longrightarrow> timingSafeCompare a b = Inr False)
   \<and> (\<not> truthy apiKey \<longrightarrow>
        authenticateApiKey db apiKey = Respond (json 401 False ''API key required''))
   \<and> (getApiKey db = Some stored \<and> key stored = [] \<longrightarrow>
        (\<exists>r. authenticateApiKey db apiKey = Respond r \<and> res_status r = 401))
   \<and> (\<not> truthy DASHBOARD_USER \<or> \<not> truthy DASHBOARD_PASSWORD \<longrightarrow>
        authenticateBasicAuth decode DASHBOARD_USER DASHBOARD_PASSWORD authHeader \<noteq> Next)
   \<and> (at_index (split_str 0x20 h) 1 = Some base64Credentials
        \<and> (\<not> truthy (at_index (split_str 0x3A (decode base64Credentials)) 0)
           \<or> \<not> truthy (at_index (split_str 0x3A (decode base64Credentials)) 1)) \<longrightarrow>
        authenticateBasicAuth decode DASHBOARD_USER DASHBOARD_PASSWORD (Some h) \<noteq> Next)"
proof (intro conjI impI)
  assume "\<not> truthy a \<or> \<not> truthy b"
  then show "timingSafeCompare a b = Inr False" by (rule timingSafeCompare_falsy)
next
  assume "\<not> truthy apiKey"
  then show "authenticateApiKey db apiKey = Respond (json 401 False ''API key required'')"
    by (simp add: authenticateApiKey_def)
next
  assume "getApiKey db = Some stored \<and> key stored = []"
  then show "\<exists>r. authenticateApiKey db apiKey = Respond r \<and> res_status r = 401"
    by (simp add: authenticateApiKey_def timingSafeCompare_def json_def)
next
  assume c: "\<not> truthy DASHBOARD_USER \<or> \<not> truthy DASHBOARD_PASSWORD"
  show "authenticateBasicAuth decode DASHBOARD_USER DASHBOARD_PASSWORD authHeader \<noteq> Next"
    using c
    by (auto simp: authenticateBasicAuth_def Let_def timingSafeCompare_falsy
        split: option.splits sum.splits)
next
  assume s: "at_index (split_str 0x20 h) 1 = Some base64Credentials
        \<and> (\<not> truthy (at_index (split_str 0x3A (decode base64Credentials)) 0)
           \<or> \<not> truthy (at_index (split_str 0x3A (decode base64Credentials)) 1))"
  then show "authenticateBasicAuth decode DASHBOARD_USER DASHBOARD_PASSWORD (Some h) \<noteq> Next"
    by (auto simp: authenticateBasicAuth_def Let_def timingSafeCompare_falsy
        split: option.splits sum.splits)
qed

theorem empty_secret_rejected_witness:
  "\<not> truthy (Some []) \<and> timingSafeCompare (Some []) (Some []) = Inr False
   \<and> authenticateApiKey db_blank_key (Some []) = Respond (json 401 False ''API key required'')
   \<and> getApiKey db_blank_key = Some \<lparr>k_id = 1, key = [], k_created_at = 0\<rparr>
   \<and> (\<exists>r. authenticateApiKey db_blank_key (Some []) = Respond r \<and> res_status r = 401)
   \<and> at_index (split_str 0x20 (js ''Basic Og=='')) 1 = Some (js ''Og=='')
   \<and> \<not> truthy (at_index (split_str 0x3A (js '':'')) 0)
   \<and> authenticateBasicAuth (\<lambda>b. js '':'') (Some []) (Some []) (Some (js ''Basic Og=='')) \<noteq> Next"
proof -
  have g: "getApiKey db_blank_key = Some \<lparr>k_id = 1, key = [], k_created_at = 0\<rparr>"
    by (simp add: db_blank_key_def db_empty_def getApiKey_def)
  have h: "at_index (split_str 0x20 (js ''Basic Og=='')) 1 = Some (js ''Og=='')"
    by (simp add: js_def at_index_def)
  have p: "\<not> truthy (at_index (split_str 0x3A (js '':'')) 0)"
    by (simp add: js_def at_index_def)
  show ?thesis
    using g h p
      empty_secret_rejected [where a = "Some []" and b = "Some []" and apiKey = "Some []"
        and db = db_blank_key and stored = "\<lparr>k_id = 1, key = [], k_created_at = 0\<rparr>"
        and DASHBOARD_USER = "Some []" and DASHBOARD_PASSWORD = "Some []"
        and decode = "\<lambda>b. js '':''" and authHeader = "Some (js ''Basic Og=='')"
        and h = "js ''Basic Og==''" and base64Credentials = "js ''Og==''"]
    by (simp add: json_def)
qed

section \<open>Properties of the ConnectionManager\<close>



lemma state_simps [simp]:
  "state (logger l t w) = state w"
  "state (setTimeout d w) = state w"
  "state (on_state f w) = f (state w)"
  by (simp_all add: logger_def setTimeout_def on_state_def)

lemma setter_simps [simp]:
  "phone (setSock s st) = phone st"
  "connected (setSock s st) = connected st"
  "qrCode (setSock s st) = qrCode st"
  "phone (setQrCode q st) = phone st"
  "connected (setQrCode q st) = connected st"
  "qrCode (setQrCode q st) = q"
  "phone (setConnected c p st) = p"
  "connected (setConnected c p st) = c"
  "qrCode (setConnected c p st) = qrCode st"
  by (simp_all add: setSock_def setQrCode_def setConnected_def)

lemma state_connect [simp]:
  "state (connectToWhatsApp w) = setSock (Some (Suc (sockets w))) (state w)"
  by (simp add: connectToWhatsApp_def on_state_def)



lemma state_suspends [simp]: "state (update_suspends u w) = state w"
  by (simp add: update_suspends_def)

lemma state_logout_suspends [simp]: "state (logout_suspends w) = state w"
  by (simp add: logout_suspends_def split: option.splits)


text \<open>The handler in one piece is the handler in two with nothing in between.\<close>

lemma post_logout_in_two:
  "post_logout env w =
     (case sock (state w) of
        None \<Rightarrow> (json 400 False ''Not connected'', w)
      | Some s \<Rightarrow> after_logout env (w\<lparr>logout_calls := logout_calls w @ [s]\<rparr>))"
  by (simp add: post_logout_def after_logout_def split: option.splits)














lemma status_of_init: "status_of (state (initializeWhatsApp session)) = Disconnected"
  by (simp add: status_of_def getStatus_def initializeWhatsApp_def world_new_def
      WhatsAppState_new_def setReconnectFn_def)




text \<open>Without a socket the handler answers 400 and does nothing else.\<close>

lemma post_logout_no_socket:
  "sock (state w) = None \<Longrightarrow> post_logout env w = (json 400 False ''Not connected'', w)"
  by (simp add: post_logout_def)

text \<open>
  C4. The handler tests the presence of the socket, not the connection status. While a
  pairing challenge is awaited the socket is present, and an authenticated logout
  request is answered 200: \<open>logout()\<close> is called on the socket, the session folder is
  removed and a reconnection is scheduled after 3000 ms.
\<close>

theorem logout_while_awaiting_pairing:
  "status_of (state (run (initializeWhatsApp True) [qr_event])) = AwaitingPairing
   \<and> fst (route_logout db_abc_key (Some (js ''abc'')) logout_succeeds
            (run (initializeWhatsApp True) [qr_event]))
       = json 200 True ''Logged out successfully. Reconnecting to generate new QR code...''
   \<and> logout_calls (snd (route_logout db_abc_key (Some (js ''abc'')) logout_succeeds
            (run (initializeWhatsApp True) [qr_event]))) = [1]
   \<and> session_dir (run (initializeWhatsApp True) [qr_event])
   \<and> \<not> session_dir (snd (route_logout db_abc_key (Some (js ''abc'')) logout_succeeds
            (run (initializeWhatsApp True) [qr_event])))
   \<and> timers (snd (route_logout db_abc_key (Some (js ''abc'')) logout_succeeds
            (run (initializeWhatsApp True) [qr_event]))) = [3000]"
proof -
  have a: "authenticateApiKey db_abc_key (Some (js ''abc'')) = Next"
    by (simp add: authenticateApiKey_def getApiKey_def db_abc_key_def db_empty_def
        timingSafeCompare_same js_def)
  have w: "run (initializeWhatsApp True) [qr_event] =
     \<lparr>state = \<lparr>sock = Some 1, qrCode = Some (js ''data:image/png;base64,AAAA''),
                connected = False, phone = None, reconnectFn = True\<rparr>,
      suspended = [], logouts_suspended = 0, timers = [], sockets = 1, session_dir = True,
      logout_calls = [],
      logged = [(''info'', ''QR code generated'')]\<rparr>"
    by (simp add: run_def qr_event_def qr_challenge_def qr_found_def connection_update_def
        connection_changed_def qr_rendered_def initializeWhatsApp_def
        connectToWhatsApp_def world_new_def WhatsAppState_new_def setReconnectFn_def
        on_state_def setSock_def setQrCode_def logger_def js_def)
  show ?thesis
    unfolding route_logout_def a w
    by (simp add: post_logout_def logout_succeeds_def Let_def on_state_def setSock_def
        setConnected_def logger_def setTimeout_def status_of_def getStatus_def js_def)
qed

text \<open>
  C5. When \<open>sock.logout()\<close> rejects, the handler answers 500 with the text
  \<open>Logout failed\<close>; the call has been made once, and nothing after it has happened: the
  state object, the session folder and the pending timers are as before.
\<close>

theorem logout_failure_surfaced:
  assumes "sock (state w) = Some s" and "logout_rejects env"
  shows "fst (post_logout env w) = json 500 False ''Logout failed''
       \<and> state (snd (post_logout env w)) = state w
       \<and> session_dir (snd (post_logout env w)) = session_dir w
       \<and> timers (snd (post_logout env w)) = timers w
       \<and> logout_calls (snd (post_logout env w)) = logout_calls w @ [s]"
  using assms by (simp add: post_logout_def logout_failed_def logger_def)

theorem logout_failure_surfaced_witness:
  "sock (state (run (initializeWhatsApp True) [open_event])) = Some 1
   \<and> logout_rejects logout_fails
   \<and> fst (post_logout logout_fails (run (initializeWhatsApp True) [open_event]))
       = json 500 False ''Logout failed''
   \<and> state (snd (post_logout logout_fails (run (initializeWhatsApp True) [open_event])))
       = state (run (initializeWhatsApp True) [open_event])
   \<and> connected (state (snd (post_logout logout_fails (run (initializeWhatsApp True) [open_event]))))
   \<and> session_dir (snd (post_logout logout_fails (run (initializeWhatsApp True) [open_event])))
   \<and> timers (snd (post_logout logout_fails (run (initializeWhatsApp True) [open_event]))) = []"
proof -
  have s: "sock (state (run (initializeWhatsApp True) [open_event])) = Some 1"
    by (simp add: run_def open_event_def connection_update_def connection_changed_def
        initializeWhatsApp_def connectToWhatsApp_def on_state_def world_new_def
        WhatsAppState_new_def setReconnectFn_def setSock_def setQrCode_def setConnected_def
        logger_def js_def)
  have r: "logout_rejects logout_fails" by (simp add: logout_fails_def)
  have c: "connected (state (run (initializeWhatsApp True) [open_event]))"
    by (simp add: run_def open_event_def connection_update_def connection_changed_def js_def)
  have d: "session_dir (run (initializeWhatsApp True) [open_event])
           \<and> timers (run (initializeWhatsApp True) [open_event]) = []"
    by (simp add: run_def open_event_def connection_update_def connection_changed_def
        initializeWhatsApp_def connectToWhatsApp_def world_new_def on_state_def logger_def
        js_def)
  show ?thesis
    using s r c d logout_failure_surfaced [OF s r] by simp
qed

section \<open>Properties of the WebhookDispatcher\<close>

text \<open>
  C8. For every URL, payload and behaviour of the network, \<open>callWebhook\<close> returns
  normally. It has made exactly one call of \<open>fetch\<close>, a POST of the payload with a timeout
  of 5000 ms, and logged exactly one line: a warning for a response whose status is not
  a success, an error for a timeout or transport error, an information otherwise.
\<close>

theorem callWebhook_never_raises:
  "\<exists>ob'. callWebhook fetch url' data' ob = Inr ob'
     \<and> fetch_calls ob' = fetch_calls ob @
          [\<lparr>f_url = url', f_method = ''POST'', f_content_type = ''application/json'',
            f_body = data', f_timeout = 5000\<rparr>]
     \<and> dispatch_log ob' = dispatch_log ob @
          [case fetch \<lparr>f_url = url', f_method = ''POST'', f_content_type = ''application/json'',
                       f_body = data', f_timeout = 5000\<rparr> of
             FetchRejects \<Rightarrow> (''error'', ''Webhook error'')
           | HttpResponse st \<Rightarrow>
               if response_ok st then (''info'', ''Webhook called successfully'')
               else (''warn'', ''Webhook call failed'')]"
  by (simp add: callWebhook_def try_catch_def dispatch_logger_def Let_def
      split: fetch_result.splits)

section \<open>Properties of the MessageIngestionPipeline\<close>


lemma startsWith_iff: "startsWith s p \<longleftrightarrow> (\<exists>post. s = p @ post)"
proof
  assume "startsWith s p"
  then have "s = p @ drop (length p) s"
    by (metis append_take_drop_id startsWith_def)
  then show "\<exists>post. s = p @ post" ..
next
  assume "\<exists>post. s = p @ post"
  then show "startsWith s p" by (auto simp: startsWith_def)
qed

lemma endsWith_iff: "endsWith s p \<longleftrightarrow> (\<exists>pre. s = pre @ p)"
proof
  assume e: "endsWith s p"
  then have "s = take (length s - length p) s @ p"
    by (metis append_take_drop_id endsWith_def)
  then show "\<exists>pre. s = pre @ p" ..
next
  assume "\<exists>pre. s = pre @ p"
  then show "endsWith s p" by (auto simp: endsWith_def)
qed

lemma includes_str_iff: "includes_str s p \<longleftrightarrow> (\<exists>pre post. s = pre @ p @ post)"
proof (induction s)
  case Nil
  show ?case by auto
next
  case (Cons c cs)
  show ?case
  proof
    assume "includes_str (c # cs) p"
    then consider "startsWith (c # cs) p" | "includes_str cs p" by auto
    then show "\<exists>pre post. c # cs = pre @ p @ post"
    proof cases
      case 1
      then obtain post where "c # cs = p @ post" by (auto simp: startsWith_iff)
      then have "c # cs = [] @ p @ post" by simp
      then show ?thesis by blast
    next
      case 2
      then obtain pre post where "cs = pre @ p @ post" using Cons.IH by blast
      then have "c # cs = (c # pre) @ p @ post" by simp
      then show ?thesis by blast
    qed
  next
    assume "\<exists>pre post. c # cs = pre @ p @ post"
    then obtain pre post where e: "c # cs = pre @ p @ post" by blast
    show "includes_str (c # cs) p"
    proof (cases pre)
      case Nil
      then have "startsWith (c # cs) p" using e by (auto simp: startsWith_iff)
      then show ?thesis by simp
    next
      case (Cons a pre')
      then have "cs = pre' @ p @ post" using e by simp
      then have "includes_str cs p" using Cons.IH by blast
      then show ?thesis by simp
    qed
  qed
qed

lemma fold_max_ge: "a \<le> fold max ids (a::nat)"
  by (induction ids arbitrary: a) (auto intro: order_trans [OF max.cobounded2])

lemma fold_max_mem: "x \<in> set ids \<Longrightarrow> x \<le> fold max ids (a::nat)"
proof (induction ids arbitrary: a)
  case Nil
  then show ?case by simp
next
  case (Cons i ids)
  show ?case
  proof (cases "x = i")
    case True
    have "x \<le> max i a" using True by simp
    also have "\<dots> \<le> fold max ids (max i a)" by (rule fold_max_ge)
    finally show ?thesis by simp
  next
    case False
    then have "x \<in> set ids" using Cons.prems by simp
    then show ?thesis using Cons.IH by simp
  qed
qed

lemma next_id_fresh: "r \<in> set rows \<Longrightarrow> m_id r \<noteq> next_id (map m_id rows)"
  using fold_max_mem [of "m_id r" "map m_id rows" 0] by (auto simp: next_id_def)

lemma resolve_from_cases:
  "resolve_from msg =
     (if (\<exists>pre. remoteJid msg = Some (pre @ js ''@lid''))
         \<and> (\<exists>pre post. participant msg = Some (pre @ js ''@s.whatsapp.net'' @ post))
      then participant msg else remoteJid msg)"
proof -
  have l: "truthy (remoteJid msg) \<and> endsWith (the (remoteJid msg)) (js ''@lid'')
            \<longleftrightarrow> (\<exists>pre. remoteJid msg = Some (pre @ js ''@lid''))"
    by (cases "remoteJid msg") (auto simp: endsWith_iff js_def)
  have p: "truthy (participant msg) \<and> includes_str (the (participant msg)) (js ''@s.whatsapp.net'')
            \<longleftrightarrow> (\<exists>pre post. participant msg = Some (pre @ js ''@s.whatsapp.net'' @ post))"
    by (cases "participant msg") (auto simp: includes_str_iff js_def)
  show ?thesis unfolding resolve_from_def Let_def l p by auto
qed

lemma ingest_simps [simp]:
  "st_db (ingest_logger l t st) = st_db st"
  "media_files (ingest_logger l t st) = media_files st"
  "dispatched (ingest_logger l t st) = dispatched st"
  "ingest_log (ingest_logger l t st) = ingest_log st @ [(l, t)]"
  "st_db (dispatch_detached net u d st) = st_db st"
  "media_files (dispatch_detached net u d st) = media_files st"
  "ingest_log (dispatch_detached net u d st) = ingest_log st"
  by (simp_all add: ingest_logger_def dispatch_detached_def split: sum.splits)

lemma notify_simps [simp]:
  "st_db (notify_webhook env i f t mt mu st) = st_db st"
  "media_files (notify_webhook env i f t mt mu st) = media_files st"
  "ingest_log (notify_webhook env i f t mt mu st) = ingest_log st"
  by (simp_all add: notify_webhook_def split: option.splits)

lemma update_fresh:
  "i = next_id (map m_id rows) \<Longrightarrow>
   map (\<lambda>r. if m_id r = i then r\<lparr>media_url := u\<rparr> else r) rows = rows"
  using next_id_fresh [of _ rows] by (simp add: map_idI)

lemma download_image_db:
  "download_image env msg hi st = (ib, mt, st1) \<Longrightarrow> st_db st1 = st_db st"
  by (auto simp: download_image_def split: if_splits option.splits)

lemma save_image_row:
  assumes "messages (st_db st) = rows @ [r]" and "m_id r = next_id (map m_id rows)"
  shows "\<exists>u. messages (st_db (case save_image env (m_id r) ib st of
                                  Inl (e, st') \<Rightarrow> st' | Inr (mu, st') \<Rightarrow> st'))
               = rows @ [r\<lparr>media_url := u\<rparr>]"
proof (cases ib)
  case None
  have "\<exists>u. r = r\<lparr>media_url := u\<rparr>" by (rule exI [of _ "media_url r"]) simp
  then show ?thesis using None assms(1) by (simp add: save_image_def)
next
  case (Some buf)
  show ?thesis
  proof (cases "writeFileSync_throws env (decimal (m_id r) @ js ''.jpg'')")
    case True
    have "\<exists>u. r = r\<lparr>media_url := u\<rparr>" by (rule exI [of _ "media_url r"]) simp
    then show ?thesis using True Some assms(1) by (simp add: save_image_def)
  next
    case False
    then show ?thesis using Some assms
      by (auto simp: save_image_def update_media_url_def update_fresh Let_def)
  qed
qed

lemma store_message_row:
  "\<exists>row. messages (st_db (landed (store_message env msg (Some f) t hi st)))
            = messages (st_db st) @ [row]
        \<and> col_phone row = f \<and> col_message row = t \<and> direction row = js ''incoming''"
proof -
  obtain ib mt st1 where d: "download_image env msg hi st = (ib, mt, st1)"
    by (cases "download_image env msg hi st") auto
  have db1: "st_db st1 = st_db st" using d by (rule download_image_db)
  define r where "r = \<lparr>m_id = next_id (map m_id (messages (st_db st))), direction = js ''incoming'',
     col_phone = f, sender_name = (if truthy (pushName msg) then pushName msg else None),
     col_message = t, reply_status = js ''unread'', media_type = Some mt,
     media_url = None, created_at = getISTTimestamp env\<rparr>"
  define st2 where "st2 = st1\<lparr>st_db := (st_db st)\<lparr>messages := messages (st_db st) @ [r]\<rparr>\<rparr>"
  have ins: "insertMessage (st_db st1) (js ''incoming'') (Some f) t (js ''unread'') (Some mt) None
      (if truthy (pushName msg) then pushName msg else None) (getISTTimestamp env)
      = Inr (m_id r, st_db st2)"
    by (simp add: insertMessage_def db1 r_def st2_def Let_def)
  have m2: "messages (st_db st2) = messages (st_db st) @ [r]"
    and i2: "m_id r = next_id (map m_id (messages (st_db st)))"
    by (simp_all add: st2_def r_def)
  obtain u where u: "messages (st_db (case save_image env (m_id r) ib st2 of
                                  Inl (e, st') \<Rightarrow> st' | Inr (mu, st') \<Rightarrow> st'))
               = messages (st_db st) @ [r\<lparr>media_url := u\<rparr>]"
    using save_image_row [OF m2 i2] by blast
  have st2': "st1\<lparr>st_db := st_db st2\<rparr> = st2" by (simp add: st2_def)
  have "messages (st_db (landed (store_message env msg (Some f) t hi st)))
          = messages (st_db st) @ [r\<lparr>media_url := u\<rparr>]"
    using u by (simp add: store_message_def d ins st2' landed_def split: sum.splits prod.splits)
  moreover have "col_phone (r\<lparr>media_url := u\<rparr>) = f \<and> col_message (r\<lparr>media_url := u\<rparr>) = t
      \<and> direction (r\<lparr>media_url := u\<rparr>) = js ''incoming''"
    by (simp add: r_def)
  ultimately show ?thesis by blast
qed


lemma store_message_failed_download:
  assumes "downloadMediaMessage env msg = None"
  shows "store_message env msg (Some f) t True st =
     Inr (notify_webhook env (next_id (map m_id (messages (st_db st)))) (Some f) t (js ''text'') None
       (ingest_logger ''info'' ''Message received''
         (ingest_logger ''error'' ''Failed to download image:'' st
            \<lparr>st_db := (st_db st)\<lparr>messages := messages (st_db st) @
               [\<lparr>m_id = next_id (map m_id (messages (st_db st))), direction = js ''incoming'',
                 col_phone = f, sender_name = (if truthy (pushName msg) then pushName msg else None),
                 col_message = t, reply_status = js ''unread'', media_type = Some (js ''text''),
                 media_url = None, created_at = getISTTimestamp env\<rparr>]\<rparr>\<rparr>)))"
  using assms
  by (simp add: store_message_def download_image_def insertMessage_def save_image_def Let_def)

lemma handle_msg_stored:
  assumes "message msg = Some m" and "\<not> fromMe msg"
    and "extract_text m \<noteq> [] \<or> imageMessage m \<noteq> None"
  shows "\<exists>st0. st_db st0 = st_db st \<and> media_files st0 = media_files st
     \<and> ingest_log st0 = ingest_log st @
          (if truthy (remoteJid msg) \<and> endsWith (the (remoteJid msg)) (js ''@lid'')
           then [(''info'', ''LID message detected'')] else [])
     \<and> handle_msg env st msg =
         (case store_message env msg (resolve_from msg) (extract_text m) (imageMessage m \<noteq> None) st0 of
            Inl (error, st') \<Rightarrow> ingest_logger ''error'' ''Failed to store message:'' st'
          | Inr st' \<Rightarrow> st')"
proof (cases "truthy (remoteJid msg) \<and> endsWith (the (remoteJid msg)) (js ''@lid'')")
  case True
  show ?thesis
    by (rule exI [of _ "ingest_logger ''info'' ''LID message detected'' st"])
       (use True assms in \<open>simp add: handle_msg_def Let_def\<close>)
next
  case False
  show ?thesis
    by (rule exI [of _ st]) (use False assms in \<open>auto simp: handle_msg_def Let_def\<close>)
qed

lemma resolve_from_sender: "remoteJid msg \<noteq> None \<Longrightarrow> resolve_from msg \<noteq> None"
  by (cases "participant msg") (auto simp: resolve_from_def Let_def)

lemma extract_text_chain:
  "extract_text m =
     (if truthy (conversation m) then the (conversation m)
      else if truthy (Option.bind (extendedTextMessage m) ext_text)
        then the (Option.bind (extendedTextMessage m) ext_text)
      else if truthy (Option.bind (imageMessage m) caption)
        then the (Option.bind (imageMessage m) caption)
      else [])"
  by (cases "conversation m"; cases "Option.bind (extendedTextMessage m) ext_text";
      cases "Option.bind (imageMessage m) caption")
     (simp_all add: extract_text_def js_or_def)

lemma messages_upsert_single:
  "messages_upsert env [msg] (js ''notify'') st = handle_msg env st msg"
  by (simp add: messages_upsert_def)

lemma messages_upsert_other_type:
  "type' \<noteq> js ''notify'' \<Longrightarrow> messages_upsert env msgs type' st = st"
  by (simp add: messages_upsert_def)

text \<open>One turn of the loop on an image whose download throws.\<close>

lemma handle_msg_failed_download:
  assumes "message msg = Some m" and "imageMessage m = Some img" and "\<not> fromMe msg"
    and "downloadMediaMessage env msg = None" and "remoteJid msg \<noteq> None"
  shows "\<exists>row. messages (st_db (handle_msg env st msg)) = messages (st_db st) @ [row]
      \<and> media_type row = Some (js ''text'') \<and> media_url row = None
      \<and> col_message row = extract_text m
      \<and> (\<not> truthy (conversation m) \<and> \<not> truthy (Option.bind (extendedTextMessage m) ext_text) \<longrightarrow>
           col_message row = (case caption img of Some c \<Rightarrow> c | None \<Rightarrow> []))
      \<and> direction row = js ''incoming'' \<and> Some (col_phone row) = resolve_from msg
      \<and> media_files (handle_msg env st msg) = media_files st
      \<and> ingest_log (handle_msg env st msg) = ingest_log st @
           (if truthy (remoteJid msg) \<and> endsWith (the (remoteJid msg)) (js ''@lid'')
            then [(''info'', ''LID message detected'')] else []) @
           [(''error'', ''Failed to download image:''), (''info'', ''Message received'')]"
proof -
  obtain f where f: "resolve_from msg = Some f"
    using resolve_from_sender [OF assms(5)] by blast
  obtain st0 where s0: "st_db st0 = st_db st" "media_files st0 = media_files st"
    "ingest_log st0 = ingest_log st @
          (if truthy (remoteJid msg) \<and> endsWith (the (remoteJid msg)) (js ''@lid'')
           then [(''info'', ''LID message detected'')] else [])"
    and h: "handle_msg env st msg =
         (case store_message env msg (resolve_from msg) (extract_text m) (imageMessage m \<noteq> None) st0 of
            Inl (error, st') \<Rightarrow> ingest_logger ''error'' ''Failed to store message:'' st'
          | Inr st' \<Rightarrow> st')"
    using handle_msg_stored [where msg = msg and m = m and env = env and st = st] assms(1,2,3) by auto
  have c: "\<not> truthy (conversation m) \<and> \<not> truthy (Option.bind (extendedTextMessage m) ext_text) \<longrightarrow>
           extract_text m = (case caption img of Some c \<Rightarrow> c | None \<Rightarrow> [])"
    using assms(2) by (cases "caption img") (auto simp: extract_text_chain)
  show ?thesis
    unfolding h f using assms(2) s0 c
    by (simp add: store_message_failed_download [OF assms(4)])
qed

text \<open>One turn of the loop on an event that is stored.\<close>

lemma handle_msg_counterparty:
  assumes "message msg = Some m" and "\<not> fromMe msg"
    and "extract_text m \<noteq> [] \<or> imageMessage m \<noteq> None" and "resolve_from msg = Some f"
  shows "\<exists>row. messages (st_db (handle_msg env st msg)) = messages (st_db st) @ [row]
           \<and> col_phone row = f"
proof -
  obtain st0 where s0: "st_db st0 = st_db st"
    and h: "handle_msg env st msg =
         (case store_message env msg (resolve_from msg) (extract_text m) (imageMessage m \<noteq> None) st0 of
            Inl (error, st') \<Rightarrow> ingest_logger ''error'' ''Failed to store message:'' st'
          | Inr st' \<Rightarrow> st')"
    using handle_msg_stored [where msg = msg and m = m and env = env and st = st] assms(1,2,3)
    by auto
  have "st_db (handle_msg env st msg) =
          st_db (landed (store_message env msg (Some f) (extract_text m) (imageMessage m \<noteq> None) st0))"
    using assms(4) by (simp add: h landed_def split: sum.splits prod.splits)
  then show ?thesis
    using store_message_row [of env msg f "extract_text m" "imageMessage m \<noteq> None" st0] s0
    by auto
qed

text \<open>
  The precedence (C3) passes over a body that is present but empty: with the plain text
  \<open>''\<close> and the extended text \<open>hi\<close> the extracted text is \<open>hi\<close>, not the plain-text
  body.
\<close>

theorem extract_text_counterexample:
  "conversation empty_plain_body = Some []
   \<and> extract_text empty_plain_body = js ''hi''
   \<and> first_present_body empty_plain_body = []
   \<and> extract_text empty_plain_body \<noteq> first_present_body empty_plain_body"
  by (simp add: empty_plain_body_def extract_text_def first_present_body_def js_or_def js_def)

text \<open>
  C3, amended. The extracted text is the plain-text body when that is present and not
  empty, otherwise the extended-text body when present and not empty, otherwise the
  image caption when present and not empty, otherwise the empty string. It is the first
  present body whenever neither the plain nor the extended text is present and empty.
\<close>

theorem extract_text_precedence:
  "extract_text m =
     (if truthy (conversation m) then the (conversation m)
      else if truthy (Option.bind (extendedTextMessage m) ext_text)
        then the (Option.bind (extendedTextMessage m) ext_text)
      else if truthy (Option.bind (imageMessage m) caption)
        then the (Option.bind (imageMessage m) caption)
      else [])
   \<and> (conversation m \<noteq> Some [] \<and> Option.bind (extendedTextMessage m) ext_text \<noteq> Some [] \<longrightarrow>
        extract_text m = first_present_body m)"
proof
  show "extract_text m =
     (if truthy (conversation m) then the (conversation m)
      else if truthy (Option.bind (extendedTextMessage m) ext_text)
        then the (Option.bind (extendedTextMessage m) ext_text)
      else if truthy (Option.bind (imageMessage m) caption)
        then the (Option.bind (imageMessage m) caption)
      else [])"
    by (rule extract_text_chain)
  show "conversation m \<noteq> Some [] \<and> Option.bind (extendedTextMessage m) ext_text \<noteq> Some [] \<longrightarrow>
        extract_text m = first_present_body m"
    by (cases "conversation m"; cases "Option.bind (extendedTextMessage m) ext_text";
        cases "Option.bind (imageMessage m) caption")
       (auto simp: extract_text_def first_present_body_def js_or_def)
qed

theorem extract_text_precedence_witness:
  "conversation captioned_body \<noteq> Some []
   \<and> Option.bind (extendedTextMessage captioned_body) ext_text \<noteq> Some []
   \<and> extract_text captioned_body = js ''hi''
   \<and> first_present_body captioned_body = js ''hi''"
proof -
  have h: "conversation captioned_body \<noteq> Some []
     \<and> Option.bind (extendedTextMessage captioned_body) ext_text \<noteq> Some []"
    by (simp add: captioned_body_def js_def)
  have f: "first_present_body captioned_body = js ''hi''"
    by (simp add: captioned_body_def first_present_body_def)
  show ?thesis
    using h f extract_text_precedence [of captioned_body] by auto
qed

text \<open>
  The handler of \<open>messages.upsert\<close>: every turn of the loop leaves the rows already in
  the table as they are and appends its own, so a row appended for one event of a batch
  is still there, unchanged, when the handler returns.
\<close>

lemma store_message_no_sender:
  "st_db (landed (store_message env msg None t hi st)) = st_db st"
  by (auto simp: store_message_def download_image_def insertMessage_def landed_def
      split: option.splits)

lemma handle_msg_appends:
  "\<exists>rows. messages (st_db (handle_msg env st msg)) = messages (st_db st) @ rows"
proof (cases "message msg")
  case None
  then show ?thesis by (simp add: handle_msg_def)
next
  case (Some m)
  show ?thesis
  proof (cases "\<not> fromMe msg \<and> (extract_text m \<noteq> [] \<or> imageMessage m \<noteq> None)")
    case False
    then show ?thesis using Some by (auto simp: handle_msg_def Let_def)
  next
    case True
    then obtain st0 where s0: "st_db st0 = st_db st"
      and h: "handle_msg env st msg =
         (case store_message env msg (resolve_from msg) (extract_text m) (imageMessage m \<noteq> None) st0 of
            Inl (error, st') \<Rightarrow> ingest_logger ''error'' ''Failed to store message:'' st'
          | Inr st' \<Rightarrow> st')"
      using handle_msg_stored [where msg = msg and m = m and env = env and st = st] Some
      by auto
    have l: "st_db (handle_msg env st msg) =
          st_db (landed (store_message env msg (resolve_from msg) (extract_text m) (imageMessage m \<noteq> None) st0))"
      by (simp add: h landed_def split: sum.splits prod.splits)
    show ?thesis
    proof (cases "resolve_from msg")
      case None
      then show ?thesis using l s0 by (simp add: store_message_no_sender)
    next
      case (Some f)
      then show ?thesis
        using l s0 store_message_row [of env msg f "extract_text m" "imageMessage m \<noteq> None" st0]
        by auto
    qed
  qed
qed

lemma foldl_handle_msg_appends:
  "\<exists>rows. messages (st_db (foldl (handle_msg env) st msgs)) = messages (st_db st) @ rows"
proof (induction msgs arbitrary: st)
  case Nil
  show ?case by simp
next
  case (Cons msg msgs)
  obtain r1 where r1: "messages (st_db (handle_msg env st msg)) = messages (st_db st) @ r1"
    using handle_msg_appends by blast
  obtain r2 where "messages (st_db (foldl (handle_msg env) (handle_msg env st msg) msgs))
      = messages (st_db (handle_msg env st msg)) @ r2"
    using Cons.IH by blast
  then have "messages (st_db (foldl (handle_msg env) st (msg # msgs))) = messages (st_db st) @ (r1 @ r2)"
    using r1 by simp
  then show ?case by blast
qed

lemma messages_upsert_split:
  "messages_upsert env (earlier @ msg # rest) (js ''notify'') st
     = foldl (handle_msg env) (handle_msg env (messages_upsert env earlier (js ''notify'') st) msg) rest"
  by (simp add: messages_upsert_def)

lemma messages_upsert_snoc:
  "messages_upsert env (earlier @ [msg]) (js ''notify'') st
     = handle_msg env (messages_upsert env earlier (js ''notify'') st) msg"
  by (simp add: messages_upsert_def)

lemma messages_upsert_row:
  assumes "messages (st_db (handle_msg env (messages_upsert env earlier (js ''notify'') st) msg))
     = messages (st_db (messages_upsert env earlier (js ''notify'') st)) @ [row]"
  shows "\<exists>later. messages (st_db (messages_upsert env (earlier @ msg # rest) (js ''notify'') st))
     = messages (st_db (messages_upsert env earlier (js ''notify'') st)) @ row # later"
  using foldl_handle_msg_appends
    [of env "handle_msg env (messages_upsert env earlier (js ''notify'') st) msg" rest] assms
  by (auto simp: messages_upsert_split)

text \<open>
  Fail-open media (C2) keeps the message but not always the caption: an image event that
  also carries a plain text is stored with the plain text, whatever its caption. And
  the handler stores nothing for an event of a batch whose type is not \<open>notify\<close>, nor
  for an event without a sender address, whose insertion the table refuses.
\<close>

theorem media_failure_text_counterexample:
  "downloadMediaMessage env_offline image_msg_with_text = None
   \<and> Option.bind (message image_msg_with_text)
        (\<lambda>m. Option.bind (imageMessage m) caption) = Some (js ''look'')
   \<and> map col_message
        (messages (st_db (messages_upsert env_offline [image_msg_with_text] (js ''notify'') store_new)))
       = [js ''hi'']
   \<and> js ''hi'' \<noteq> js ''look''
   \<and> messages (st_db (messages_upsert env_offline [image_msg] (js ''append'') store_new)) = []
   \<and> messages (st_db (messages_upsert env_offline [image_msg_no_sender] (js ''notify'') store_new)) = []"
  by (simp add: messages_upsert_def handle_msg_def store_message_def download_image_def
      save_image_def notify_webhook_def getWebhook_def insertMessage_def extract_text_def
      js_or_def resolve_from_def endsWith_def image_msg_with_text_def image_msg_no_sender_def
      image_msg_def env_offline_def store_new_def db_empty_def ingest_logger_def next_id_def
      Let_def js_def)

text \<open>
  C2, amended. An inbound event with an image whose download throws, delivered in a
  batch of type \<open>notify\<close>, from a sender and not authored by this account: whatever comes
  before and after it in the batch, the handler appends one row for it, with the media
  type \<open>text\<close>, no media reference and the extracted text, which is the caption that
  was present (the empty string without one) when the event has no plain or extended
  text that is not empty. No file is written, the failed download is logged, and no
  failure to store the message is logged.
\<close>

theorem media_failure_degrades_to_text:
  assumes "message msg = Some m" and "imageMessage m = Some img" and "\<not> fromMe msg"
    and "downloadMediaMessage env msg = None" and "remoteJid msg \<noteq> None"
  shows "\<exists>row later.
        messages (st_db (messages_upsert env (earlier @ msg # rest) (js ''notify'') st))
          = messages (st_db (messages_upsert env earlier (js ''notify'') st)) @ row # later
      \<and> media_type row = Some (js ''text'') \<and> media_url row = None
      \<and> col_message row = extract_text m
      \<and> (\<not> truthy (conversation m) \<and> \<not> truthy (Option.bind (extendedTextMessage m) ext_text) \<longrightarrow>
           col_message row = (case caption img of Some c \<Rightarrow> c | None \<Rightarrow> []))
      \<and> direction row = js ''incoming'' \<and> Some (col_phone row) = resolve_from msg
      \<and> media_files (messages_upsert env (earlier @ [msg]) (js ''notify'') st)
          = media_files (messages_upsert env earlier (js ''notify'') st)
      \<and> ingest_log (messages_upsert env (earlier @ [msg]) (js ''notify'') st)
          = ingest_log (messages_upsert env earlier (js ''notify'') st) @
           (if truthy (remoteJid msg) \<and> endsWith (the (remoteJid msg)) (js ''@lid'')
            then [(''info'', ''LID message detected'')] else []) @
           [(''error'', ''Failed to download image:''), (''info'', ''Message received'')]"
proof -
  let ?st1 = "messages_upsert env earlier (js ''notify'') st"
  obtain row where r: "messages (st_db (handle_msg env ?st1 msg)) = messages (st_db ?st1) @ [row]"
    and p: "media_type row = Some (js ''text'')" "media_url row = None"
      "col_message row = extract_text m"
      "\<not> truthy (conversation m) \<and> \<not> truthy (Option.bind (extendedTextMessage m) ext_text) \<longrightarrow>
           col_message row = (case caption img of Some c \<Rightarrow> c | None \<Rightarrow> [])"
      "direction row = js ''incoming''" "Some (col_phone row) = resolve_from msg"
    and f: "media_files (handle_msg env ?st1 msg) = media_files ?st1"
    and l: "ingest_log (handle_msg env ?st1 msg) = ingest_log ?st1 @
           (if truthy (remoteJid msg) \<and> endsWith (the (remoteJid msg)) (js ''@lid'')
            then [(''info'', ''LID message detected'')] else []) @
           [(''error'', ''Failed to download image:''), (''info'', ''Message received'')]"
    using handle_msg_failed_download [OF assms, of ?st1] by blast
  obtain later where "messages (st_db (messages_upsert env (earlier @ msg # rest) (js ''notify'') st))
     = messages (st_db ?st1) @ row # later"
    using messages_upsert_row [OF r] by blast
  then show ?thesis using p f l by (auto simp: messages_upsert_snoc)
qed

theorem media_failure_degrades_to_text_witness:
  "message image_msg = Some \<lparr>conversation = None, extendedTextMessage = None,
                              imageMessage = Some \<lparr>caption = Some (js ''look'')\<rparr>\<rparr>
   \<and> \<not> fromMe image_msg \<and> downloadMediaMessage env_offline image_msg = None
   \<and> remoteJid image_msg \<noteq> None
   \<and> (\<exists>row later. messages (st_db (messages_upsert env_offline [image_msg] (js ''notify'') store_new))
           = row # later
         \<and> media_type row = Some (js ''text'') \<and> media_url row = None
         \<and> col_message row = js ''look'')"
proof -
  have m: "message image_msg = Some \<lparr>conversation = None, extendedTextMessage = None,
                              imageMessage = Some \<lparr>caption = Some (js ''look'')\<rparr>\<rparr>"
    by (simp add: image_msg_def)
  have i: "imageMessage \<lparr>conversation = None, extendedTextMessage = None,
                         imageMessage = Some \<lparr>caption = Some (js ''look'')\<rparr>\<rparr>
             = Some \<lparr>caption = Some (js ''look'')\<rparr>"
    by simp
  have n: "\<not> fromMe image_msg" by (simp add: image_msg_def)
  have d: "downloadMediaMessage env_offline image_msg = None" by (simp add: env_offline_def)
  have r: "remoteJid image_msg \<noteq> None" by (simp add: image_msg_def)
  have e: "messages (st_db (messages_upsert env_offline [] (js ''notify'') store_new)) = []"
    by (simp add: messages_upsert_def store_new_def db_empty_def)
  show ?thesis
    using m n d r e media_failure_degrades_to_text [OF m i n d r, of "[]" "[]" store_new]
    by auto
qed

text \<open>
  Identity resolution (C6) tests less than the canonical form: a participant address
  that contains \<open>@s.whatsapp.net\<close> without ending with it replaces an alias sender,
  where the rule as worded keeps the sender.
\<close>

lemma canonical_includes:
  assumes "canonical_form p"
  shows "includes_str p (js ''@s.whatsapp.net'')"
proof -
  obtain pre where "p = pre @ js ''@s.whatsapp.net''"
    using assms by (auto simp: canonical_form_def endsWith_iff)
  then have "p = pre @ js ''@s.whatsapp.net'' @ []" by simp
  then show ?thesis unfolding includes_str_iff by blast
qed

theorem counterparty_counterexample:
  "remoteJid lid_msg_other_domain = Some (js ''77@lid'') \<and> alias_form (js ''77@lid'')
   \<and> participant lid_msg_other_domain = Some (js ''9@s.whatsapp.net.example'')
   \<and> \<not> canonical_form (js ''9@s.whatsapp.net.example'')
   \<and> counterparty_by_form lid_msg_other_domain = Some (js ''77@lid'')
   \<and> map col_phone
        (messages (st_db (messages_upsert env_offline [lid_msg_other_domain] (js ''notify'') store_new)))
       = [js ''9@s.whatsapp.net.example'']
   \<and> js ''9@s.whatsapp.net.example'' \<noteq> js ''77@lid''"
  by (simp add: messages_upsert_def handle_msg_def store_message_def download_image_def
      save_image_def notify_webhook_def getWebhook_def insertMessage_def extract_text_def
      js_or_def resolve_from_def endsWith_def startsWith_def lid_msg_other_domain_def
      counterparty_by_form_def alias_form_def canonical_form_def env_offline_def
      store_new_def db_empty_def ingest_logger_def next_id_def Let_def js_def)

text \<open>
  C6, amended. The counterparty is the participant address when the sender address ends
  with \<open>@lid\<close> and the participant address is present and contains \<open>@s.whatsapp.net\<close>,
  as every participant in the canonical form does; otherwise it is the sender address as
  given. For an event of a batch of type \<open>notify\<close> that is stored, it is the \<open>phone\<close> of
  the row that the handler appends for it.
\<close>

theorem counterparty_resolution:
  "resolve_from msg =
     (if (\<exists>pre. remoteJid msg = Some (pre @ js ''@lid''))
         \<and> (\<exists>pre post. participant msg = Some (pre @ js ''@s.whatsapp.net'' @ post))
      then participant msg else remoteJid msg)
   \<and> (remoteJid msg = Some sender \<and> alias_form sender \<and> participant msg = Some p
        \<and> canonical_form p \<longrightarrow> resolve_from msg = Some p)
   \<and> (message msg = Some m \<and> \<not> fromMe msg \<and> (extract_text m \<noteq> [] \<or> imageMessage m \<noteq> None)
        \<and> resolve_from msg = Some f \<longrightarrow>
        (\<exists>row later.
            messages (st_db (messages_upsert env (earlier @ msg # rest) (js ''notify'') st))
              = messages (st_db (messages_upsert env earlier (js ''notify'') st)) @ row # later
          \<and> col_phone row = f))"
proof (intro conjI impI)
  show "resolve_from msg =
     (if (\<exists>pre. remoteJid msg = Some (pre @ js ''@lid''))
         \<and> (\<exists>pre post. participant msg = Some (pre @ js ''@s.whatsapp.net'' @ post))
      then participant msg else remoteJid msg)"
    by (rule resolve_from_cases)
next
  assume a: "remoteJid msg = Some sender \<and> alias_form sender \<and> participant msg = Some p
        \<and> canonical_form p"
  then have "p \<noteq> []" by (auto simp: canonical_form_def endsWith_def js_def)
  moreover have "sender \<noteq> []" using a by (auto simp: alias_form_def endsWith_def js_def)
  ultimately show "resolve_from msg = Some p"
    using a canonical_includes [of p] by (simp add: resolve_from_def alias_form_def)
next
  assume a: "message msg = Some m \<and> \<not> fromMe msg \<and> (extract_text m \<noteq> [] \<or> imageMessage m \<noteq> None)
        \<and> resolve_from msg = Some f"
  let ?st1 = "messages_upsert env earlier (js ''notify'') st"
  obtain row where r: "messages (st_db (handle_msg env ?st1 msg)) = messages (st_db ?st1) @ [row]"
    and c: "col_phone row = f"
    using a handle_msg_counterparty [of msg m f env ?st1] by blast
  obtain later where "messages (st_db (messages_upsert env (earlier @ msg # rest) (js ''notify'') st))
     = messages (st_db ?st1) @ row # later"
    using messages_upsert_row [OF r] by blast
  then show "\<exists>row later.
            messages (st_db (messages_upsert env (earlier @ msg # rest) (js ''notify'') st))
              = messages (st_db (messages_upsert env earlier (js ''notify'') st)) @ row # later
          \<and> col_phone row = f"
    using c by blast
qed

theorem counterparty_resolution_witness:
  "remoteJid lid_msg = Some (js ''77@lid'') \<and> alias_form (js ''77@lid'')
   \<and> participant lid_msg = Some (js ''123@s.whatsapp.net'')
   \<and> canonical_form (js ''123@s.whatsapp.net'')
   \<and> resolve_from lid_msg = Some (js ''123@s.whatsapp.net'')
   \<and> \<not> fromMe lid_msg
   \<and> (\<exists>row later. messages (st_db (messages_upsert env_offline [lid_msg] (js ''notify'') store_new))
           = row # later
         \<and> col_phone row = js ''123@s.whatsapp.net'')"
proof -
  have j: "remoteJid lid_msg = Some (js ''77@lid'')"
    and p: "participant lid_msg = Some (js ''123@s.whatsapp.net'')"
    by (simp_all add: lid_msg_def)
  have a: "alias_form (js ''77@lid'')" and c: "canonical_form (js ''123@s.whatsapp.net'')"
    by (simp_all add: alias_form_def canonical_form_def endsWith_def js_def)
  have m: "message lid_msg = Some \<lparr>conversation = Some (js ''hi''), extendedTextMessage = None,
                      imageMessage = None\<rparr>"
    and n: "\<not> fromMe lid_msg"
    by (simp_all add: lid_msg_def)
  have t: "extract_text \<lparr>conversation = Some (js ''hi''), extendedTextMessage = None,
                      imageMessage = None\<rparr> \<noteq> []"
    by (simp add: extract_text_def js_or_def js_def)
  have r: "resolve_from lid_msg = Some (js ''123@s.whatsapp.net'')"
    using j p a c
      counterparty_resolution [where msg = lid_msg and sender = "js ''77@lid''"
        and p = "js ''123@s.whatsapp.net''"]
    by blast
  have e: "messages (st_db (messages_upsert env_offline [] (js ''notify'') store_new)) = []"
    by (simp add: messages_upsert_def store_new_def db_empty_def)
  show ?thesis
    using j p a c r n m t e
      counterparty_resolution [where msg = lid_msg and f = "js ''123@s.whatsapp.net''"
        and env = env_offline and st = store_new and earlier = "[]" and rest = "[]"
        and m = "\<lparr>conversation = Some (js ''hi''), extendedTextMessage = None,
                      imageMessage = None\<rparr>"]
    by auto
qed


end
